theory Spec2Isabelle
  imports Complex_Main "HOL-Library.Log_Nat"
begin

section \<open>Floating-point arithmetic of the converters\<close>

text \<open>
  The converters of \<^verbatim>\<open>gil/dip/ColorSpace.h\<close> compute in C++ \<^verbatim>\<open>double\<close> (every
  coefficient is a \<^verbatim>\<open>double\<close> literal) and in the extended type of the channel type.
  A floating-point value is a rational number, an infinity or NaN; every operation
  rounds its exact result to the nearest value of the format, ties to even, with
  gradual underflow and overflow to infinity (IEEE 754, evaluated operation by
  operation, without contraction). Zero carries no sign: \<open>Fin 0\<close> stands for both
  zeros of the format, and the sign of a zero is not followed through a computation.
\<close>

datatype fp = Fin rat | PInf | NInf | NaN

datatype precision = Single | Double

fun prec :: "precision \<Rightarrow> nat" where
  "prec Single = 24"
| "prec Double = 53"

fun emin :: "precision \<Rightarrow> int" where
  "emin Single = - 126"
| "emin Double = - 1022"

fun emax :: "precision \<Rightarrow> int" where
  "emax Single = 127"
| "emax Double = 1023"

definition pow2 :: "int \<Rightarrow> rat" where
  "pow2 e = (if 0 \<le> e then 2 ^ nat e else 1 / 2 ^ nat (- e))"

definition ilog2 :: "rat \<Rightarrow> int" where
  \<comment> \<open>the exponent of a positive rational: \<open>2 ^ ilog2 x \<le> x < 2 ^ (ilog2 x + 1)\<close>\<close>
  "ilog2 x = (let (a, b) = quotient_of x; k = bitlen a - bitlen b
              in if pow2 k \<le> x then k else k - 1)"

definition rne :: "rat \<Rightarrow> int" where
  \<comment> \<open>the nearest integer, ties to even\<close>
  "rne q = (let f = \<lfloor>q\<rfloor>; d = q - of_int f
            in if d < 1 / 2 then f
               else if 1 / 2 < d then f + 1
               else if even f then f else f + 1)"

definition fround :: "precision \<Rightarrow> rat \<Rightarrow> fp" where
  "fround p x =
     (if x = 0 then Fin 0
      else let e = max (ilog2 \<bar>x\<bar>) (emin p);
               s = pow2 (e - int (prec p) + 1);
               m = rne (x / s)
           in if emax p < e \<or> (e = emax p \<and> \<bar>m\<bar> = 2 ^ prec p)
              then (if 0 < x then PInf else NInf)
              else Fin (of_int m * s))"

fun fneg :: "fp \<Rightarrow> fp" where
  "fneg (Fin x) = Fin (- x)"
| "fneg PInf = NInf"
| "fneg NInf = PInf"
| "fneg NaN = NaN"

fun fsgn :: "fp \<Rightarrow> int" where
  "fsgn (Fin x) = (if x < 0 then - 1 else if x = 0 then 0 else 1)"
| "fsgn PInf = 1"
| "fsgn NInf = - 1"
| "fsgn NaN = 0"

definition signed_inf :: "int \<Rightarrow> fp" where
  "signed_inf s = (if s = 0 then NaN else if 0 < s then PInf else NInf)"

fun fadd :: "precision \<Rightarrow> fp \<Rightarrow> fp \<Rightarrow> fp" where
  "fadd p (Fin x) (Fin y) = fround p (x + y)"
| "fadd p NaN b = NaN"
| "fadd p a NaN = NaN"
| "fadd p PInf NInf = NaN"
| "fadd p NInf PInf = NaN"
| "fadd p PInf b = PInf"
| "fadd p NInf b = NInf"
| "fadd p (Fin x) b = b"

definition fsub :: "precision \<Rightarrow> fp \<Rightarrow> fp \<Rightarrow> fp" where
  "fsub p a b = fadd p a (fneg b)"

fun fmul :: "precision \<Rightarrow> fp \<Rightarrow> fp \<Rightarrow> fp" where
  "fmul p (Fin x) (Fin y) = fround p (x * y)"
| "fmul p NaN b = NaN"
| "fmul p a NaN = NaN"
| "fmul p a b = signed_inf (fsgn a * fsgn b)"

text \<open>
  In a division the zero divisor counts as positive: a non-zero number divided by zero
  is the infinity of the sign of the numerator, where IEEE 754 gives the opposite
  infinity for a negative zero. A negative zero arises where a negative result
  underflows, where a zero is multiplied or divided by a negative number, where a
  positive number is divided by the negative infinity (after an overflow), and from a
  negative zero of the input; on those inputs the sign of an infinite quotient is not
  the program's.
\<close>

fun fdiv :: "precision \<Rightarrow> fp \<Rightarrow> fp \<Rightarrow> fp" where
  "fdiv p (Fin x) (Fin y) = (if y = 0 then signed_inf (fsgn (Fin x)) else fround p (x / y))"
| "fdiv p NaN b = NaN"
| "fdiv p a NaN = NaN"
| "fdiv p (Fin x) b = Fin 0"
| "fdiv p a (Fin y) = signed_inf (fsgn a * (if y < 0 then - 1 else 1))"
| "fdiv p a b = NaN"

fun flt :: "fp \<Rightarrow> fp \<Rightarrow> bool" where
  "flt (Fin x) (Fin y) = (x < y)"
| "flt NaN b = False"
| "flt a NaN = False"
| "flt a NInf = False"
| "flt PInf b = False"
| "flt a b = True"

definition feq :: "fp \<Rightarrow> fp \<Rightarrow> bool" where
  "feq a b = (a \<noteq> NaN \<and> a = b)"

definition fmax :: "fp \<Rightarrow> fp \<Rightarrow> fp" where
  \<comment> \<open>\<^verbatim>\<open>max(a, b)\<close>: \<^verbatim>\<open>(a < b) ? b : a\<close>\<close>
  "fmax a b = (if flt a b then b else a)"

definition fmin :: "fp \<Rightarrow> fp \<Rightarrow> fp" where
  \<comment> \<open>\<^verbatim>\<open>min(a, b)\<close>: \<^verbatim>\<open>(b < a) ? b : a\<close>\<close>
  "fmin a b = (if flt b a then b else a)"

definition fconv :: "precision \<Rightarrow> precision \<Rightarrow> fp \<Rightarrow> fp" where
  \<comment> \<open>conversion between floating types: exact when widening, rounded when narrowing\<close>
  "fconv src dst a =
     (if src = dst \<or> dst = Double then a
      else case a of Fin x \<Rightarrow> fround dst x | _ \<Rightarrow> a)"

definition lit :: "rat \<Rightarrow> fp" where
  \<comment> \<open>a decimal literal of type \<^verbatim>\<open>double\<close>\<close>
  "lit x = fround Double x"

abbreviation dadd :: "fp \<Rightarrow> fp \<Rightarrow> fp" where "dadd \<equiv> fadd Double"
abbreviation dsub :: "fp \<Rightarrow> fp \<Rightarrow> fp" where "dsub \<equiv> fsub Double"
abbreviation dmul :: "fp \<Rightarrow> fp \<Rightarrow> fp" where "dmul \<equiv> fmul Double"
abbreviation ddiv :: "fp \<Rightarrow> fp \<Rightarrow> fp" where "ddiv \<equiv> fdiv Double"

section \<open>Channels, pixels and the channel traits\<close>

text \<open>
  A converter is a template over the pixel type; the channel storage type of the
  instantiation is a parameter of the model. A channel holds its value as an \<open>fp\<close>:
  an integer channel holds \<open>Fin n\<close> with \<open>n\<close> a whole number of its range.
\<close>

datatype storage = U8 | U16 | Float precision

type_synonym pixel = "fp \<times> fp \<times> fp"

datatype error = Assertion_failed | Undefined_conversion

definition is_channel :: "storage \<Rightarrow> fp \<Rightarrow> bool" where
  \<comment> \<open>the values that a channel of the storage type holds\<close>
  "is_channel st a =
     (case st of
        U8 \<Rightarrow> a \<in> Fin ` of_nat ` {0 ..< 256}
      | U16 \<Rightarrow> a \<in> Fin ` of_nat ` {0 ..< 65536}
      | Float p \<Rightarrow> (case a of Fin x \<Rightarrow> fround p x = a | _ \<Rightarrow> True))"

definition opaque :: "storage \<Rightarrow> fp" where
  \<comment> \<open>Modelled from the spec: \<^verbatim>\<open>TypeTrait<T>::opaque()\<close> is declared in \<^verbatim>\<open>gil.h\<close>, which
      is not part of the sources; the opaque maximum is 255 for 8-bit, 65535 for 16-bit
      and 1.0 for floating-point storage.\<close>
  "opaque st = (case st of U8 \<Rightarrow> Fin 255 | U16 \<Rightarrow> Fin 65535 | Float p \<Rightarrow> Fin 1)"

definition trunc :: "rat \<Rightarrow> int" where
  "trunc x = (if 0 \<le> x then \<lfloor>x\<rfloor> else \<lceil>x\<rceil>)"

fun int_sub :: "fp \<Rightarrow> fp \<Rightarrow> fp" where
  "int_sub (Fin x) (Fin y) = Fin (x - y)"
| "int_sub a b = NaN"

fun int_div :: "fp \<Rightarrow> fp \<Rightarrow> fp" where
  "int_div (Fin x) (Fin y) = Fin (of_int (trunc (x / y)))"
| "int_div a b = NaN"

definition vsub :: "storage \<Rightarrow> fp \<Rightarrow> fp \<Rightarrow> fp" where
  \<comment> \<open>\<^verbatim>\<open>a - b\<close> on two channel values: integer channels are promoted to \<^verbatim>\<open>int\<close>\<close>
  "vsub st a b = (case st of Float p \<Rightarrow> fsub p a b | _ \<Rightarrow> int_sub a b)"

definition vdiv :: "storage \<Rightarrow> fp \<Rightarrow> fp \<Rightarrow> fp" where
  \<comment> \<open>\<^verbatim>\<open>a / b\<close> on two channel values: integer division truncates\<close>
  "vdiv st a b = (case st of Float p \<Rightarrow> fdiv p a b | _ \<Rightarrow> int_div a b)"

definition to_unsigned :: "nat \<Rightarrow> fp \<Rightarrow> error + fp" where
  \<comment> \<open>a floating value converted to an unsigned integer type of \<open>w\<close> bits: truncated
      towards zero; undefined when the truncated value is not representable\<close>
  "to_unsigned w a =
     (case a of
        Fin x \<Rightarrow> if - 1 < x \<and> x < 2 ^ w then Inr (Fin (of_int (trunc x)))
                 else Inl Undefined_conversion
      | _ \<Rightarrow> Inl Undefined_conversion)"

definition narrow :: "precision \<Rightarrow> storage \<Rightarrow> fp \<Rightarrow> error + fp" where
  \<comment> \<open>\<^verbatim>\<open>static_cast<value_type>(a)\<close> for \<open>a\<close> of the floating type \<open>src\<close>\<close>
  "narrow src st a =
     (case st of
        U8 \<Rightarrow> to_unsigned 8 a
      | U16 \<Rightarrow> to_unsigned 16 a
      | Float p \<Rightarrow> Inr (fconv src p a))"

definition color :: "error + fp \<Rightarrow> error + fp \<Rightarrow> error + fp \<Rightarrow> error + pixel" where
  \<comment> \<open>\<^verbatim>\<open>To(a, b, c)\<close> on three converted channels\<close>
  "color a b c =
     (case a of Inl e \<Rightarrow> Inl e | Inr x \<Rightarrow>
        (case b of Inl e \<Rightarrow> Inl e | Inr y \<Rightarrow>
           (case c of Inl e \<Rightarrow> Inl e | Inr z \<Rightarrow> Inr (x, y, z))))"

definition delta :: "storage \<Rightarrow> fp" where
  \<comment> \<open>\<^verbatim>\<open>const value_type delta = TypeTrait<value_type>::opaque() / 2;\<close>\<close>
  "delta st = vdiv st (opaque st) (Fin 2)"

section \<open>The converters\<close>

definition RgbToGray :: "storage \<Rightarrow> pixel \<Rightarrow> error + fp" where
  "RgbToGray st from =
     (case from of (c0, c1, c2) \<Rightarrow>
        narrow Double st
          (dadd (dadd (dmul (lit 0.299) c0) (dmul (lit 0.587) c1)) (dmul (lit 0.114) c2)))"

definition RgbToYCrCb :: "storage \<Rightarrow> pixel \<Rightarrow> error + pixel" where
  "RgbToYCrCb st from =
     (case from of (R, G, B) \<Rightarrow>
        (case RgbToGray st from of
           Inl e \<Rightarrow> Inl e
         | Inr Y \<Rightarrow>
             color (Inr Y)
               (narrow Double st (dadd (dmul (vsub st R Y) (lit 0.713)) (delta st)))
               (narrow Double st (dadd (dmul (vsub st B Y) (lit 0.564)) (delta st)))))"

definition YCrCbToRgb :: "storage \<Rightarrow> pixel \<Rightarrow> error + pixel" where
  "YCrCbToRgb st from =
     (case from of (Y, Cr, Cb) \<Rightarrow>
        color
          (narrow Double st (dadd Y (dmul (lit 1.403) (vsub st Cr (delta st)))))
          (narrow Double st
             (dsub (dsub Y (dmul (lit 0.714) (vsub st Cr (delta st))))
                   (dmul (lit 0.344) (vsub st Cb (delta st)))))
          (narrow Double st (dadd Y (dmul (lit 1.773) (vsub st Cb (delta st))))))"

definition RgbToXyz :: "storage \<Rightarrow> pixel \<Rightarrow> error + pixel" where
  "RgbToXyz st from =
     (case from of (c0, c1, c2) \<Rightarrow>
        color
          (narrow Double st
             (dadd (dadd (dmul (lit 0.412453) c0) (dmul (lit 0.357580) c1)) (dmul (lit 0.180423) c2)))
          (narrow Double st
             (dadd (dadd (dmul (lit 0.212671) c0) (dmul (lit 0.715160) c1)) (dmul (lit 0.072169) c2)))
          (narrow Double st
             (dadd (dadd (dmul (lit 0.019334) c0) (dmul (lit 0.119193) c1)) (dmul (lit 0.950227) c2))))"

definition XyzToRgb :: "storage \<Rightarrow> pixel \<Rightarrow> error + pixel" where
  "XyzToRgb st from =
     (case from of (c0, c1, c2) \<Rightarrow>
        color
          (narrow Double st
             (dadd (dadd (dmul (lit 3.240479) c0) (dmul (fneg (lit 1.53715)) c1))
                   (dmul (fneg (lit 0.498535)) c2)))
          (narrow Double st
             (dadd (dadd (dmul (fneg (lit 0.969256)) c0) (dmul (lit 1.875991) c1))
                   (dmul (lit 0.041556) c2)))
          (narrow Double st
             (dadd (dadd (dmul (lit 0.055648) c0) (dmul (fneg (lit 0.204043)) c1))
                   (dmul (lit 1.057311) c2))))"

text \<open>
  The remaining forward converters compute in \<^verbatim>\<open>tmp_type\<close>, the
  \<^verbatim>\<open>TypeTrait<value_type>::ExtendedType\<close>, on the pixel that
  \<^verbatim>\<open>DefaultConverter<tmp_color, T>\<close> returns. Both are declared in \<^verbatim>\<open>gil.h\<close>, which is
  not part of the sources: the extended type is the parameter \<open>xt\<close>, a floating type, and
  the converter the parameter \<open>dc\<close>. \<^verbatim>\<open>std::pow\<close> at the extended type is the
  parameter \<open>pw\<close>.
\<close>

definition RgbToHsv :: "precision \<Rightarrow> (pixel \<Rightarrow> pixel) \<Rightarrow> storage \<Rightarrow> pixel \<Rightarrow> error + pixel" where
  "RgbToHsv xt dc st from =
     (case dc from of (R, G, B) \<Rightarrow>
        (let V = fmax (fmax R G) (fmax G B);
             S = (if V \<noteq> Fin 0 then fdiv xt (fsub xt V (fmin (fmin R G) (fmin G B))) V else Fin 0);
             H = (if feq V R then fdiv xt (fmul xt (fsub xt G B) (Fin 60)) S
                  else if feq V G then fadd xt (Fin 120) (fdiv xt (fmul xt (fsub xt B R) (Fin 60)) S)
                  else fadd xt (Fin 240) (fdiv xt (fmul xt (fsub xt R G) (Fin 60)) S));
             H' = (if flt H (Fin 0) then fadd xt H (Fin 360) else H)
         in color (narrow xt st H') (narrow xt st S) (narrow xt st V)))"

definition HsvToRgb :: "storage \<Rightarrow> pixel \<Rightarrow> error + pixel" where
  \<comment> \<open>\<^verbatim>\<open>assert(0);\<close>\<close>
  "HsvToRgb st from = Inl Assertion_failed"

definition RgbToHsl :: "precision \<Rightarrow> (pixel \<Rightarrow> pixel) \<Rightarrow> storage \<Rightarrow> pixel \<Rightarrow> error + pixel" where
  "RgbToHsl xt dc st from =
     (case dc from of (R, G, B) \<Rightarrow>
        (let Vmax = fmax (fmax R G) (fmax G B);
             Vmin = fmin (fmin R G) (fmin G B);
             L = fdiv xt (fadd xt Vmax Vmin) (Fin 2);
             S = (if flt L (lit 0.5)
                  then fdiv xt (fsub xt Vmax Vmin) (fadd xt Vmax Vmin)
                  else fdiv xt (fsub xt Vmax Vmin) (fsub xt (Fin 2) (fadd xt Vmax Vmin)));
             H = (if feq Vmax R then fdiv xt (fmul xt (fsub xt G B) (Fin 60)) S
                  else if feq Vmax G then fadd xt (Fin 120) (fdiv xt (fmul xt (fsub xt B R) (Fin 60)) S)
                  else fadd xt (Fin 240) (fdiv xt (fmul xt (fsub xt R G) (Fin 60)) S));
             H' = (if flt H (Fin 0) then fadd xt H (Fin 360) else H)
         in color (narrow xt st H') (narrow xt st S) (narrow xt st L)))"

definition HslToRgb :: "storage \<Rightarrow> pixel \<Rightarrow> error + pixel" where
  \<comment> \<open>\<^verbatim>\<open>assert(0);\<close>\<close>
  "HslToRgb st from = Inl Assertion_failed"

text \<open>
  \<^verbatim>\<open>RgbToLab::operator()\<close> is not modelled: it declares \<^verbatim>\<open>X\<close> and \<^verbatim>\<open>Z\<close> as
  \<^verbatim>\<open>const tmp_type &\<close> and then assigns to them (\<^verbatim>\<open>X /= 0.950456; Z /= 1.088754;\<close>), so
  it is ill-formed for every pixel type and the program has no such function.

  In \<^verbatim>\<open>RgbToLuv\<close> the two branches of the conditional that gives \<^verbatim>\<open>L\<close> have the types
  \<^verbatim>\<open>tmp_type\<close> and \<^verbatim>\<open>double\<close>; the value of the \<^verbatim>\<open>double\<close> branch is converted to
  \<^verbatim>\<open>tmp_type\<close> when it is stored, and the value of the \<^verbatim>\<open>tmp_type\<close> branch is stored
  unchanged.
\<close>

definition third :: "precision \<Rightarrow> fp" where
  \<comment> \<open>\<^verbatim>\<open>static_cast<tmp_type>(1./3)\<close>\<close>
  "third xt = fconv Double xt (ddiv (Fin 1) (Fin 3))"

definition LabToRgb :: "storage \<Rightarrow> pixel \<Rightarrow> error + pixel" where
  \<comment> \<open>\<^verbatim>\<open>assert(0);\<close>\<close>
  "LabToRgb st from = Inl Assertion_failed"

definition RgbToLuv ::
  "precision \<Rightarrow> (pixel \<Rightarrow> pixel) \<Rightarrow> (fp \<Rightarrow> fp \<Rightarrow> fp) \<Rightarrow> storage \<Rightarrow> pixel \<Rightarrow> error + pixel" where
  "RgbToLuv xt dc pw st from =
     (case RgbToXyz (Float xt) (dc from) of
        Inl e \<Rightarrow> Inl e
      | Inr (X, Y, Z) \<Rightarrow>
          (let L = (if flt (lit 0.008856) Y
                    then fsub xt (fmul xt (Fin 116) (pw Y (third xt))) (Fin 16)
                    else fconv Double xt (dmul (lit 903.3) Y));
               u' = fdiv xt (fmul xt (Fin 4) X)
                      (fadd xt (fadd xt X (fmul xt (Fin 15) Y)) (fmul xt (Fin 3) Z));
               v' = fdiv xt (fmul xt (Fin 9) Y)
                      (fadd xt (fadd xt X (fmul xt (Fin 15) Y)) (fmul xt (Fin 3) Z));
               un = fconv Double xt (lit 0.19793943);
               vn = fconv Double xt (lit 0.46831096);
               u = fmul xt (fmul xt (Fin 13) L) (fsub xt u' un);
               v = fmul xt (fmul xt (Fin 13) L) (fsub xt v' vn)
           in color (narrow xt st L) (narrow xt st u) (narrow xt st v)))"

definition LuvToRgb :: "storage \<Rightarrow> pixel \<Rightarrow> error + pixel" where
  \<comment> \<open>\<^verbatim>\<open>assert(0);\<close>\<close>
  "LuvToRgb st from = Inl Assertion_failed"

definition DefaultConverter :: "precision \<Rightarrow> storage \<Rightarrow> pixel \<Rightarrow> pixel" where
  \<comment> \<open>Modelled from the spec: \<^verbatim>\<open>DefaultConverter<tmp_color, T>\<close> is declared outside the
      sources; it converts a pixel from one arithmetic precision to another within
      the same color model, here each channel to the extended type \<open>xt\<close>.\<close>
  "DefaultConverter xt st from =
     (case from of (c0, c1, c2) \<Rightarrow>
        (case st of
           Float p \<Rightarrow> (fconv p xt c0, fconv p xt c1, fconv p xt c2)
         | _ \<Rightarrow> (c0, c1, c2)))"

section \<open>The formulas of the specification\<close>

text \<open>
  The formulas as the specification words them, on values that are not narrowed; the
  converters above are compared with them.
\<close>

definition luminance :: "fp \<Rightarrow> fp \<Rightarrow> fp \<Rightarrow> fp" where
  \<comment> \<open>\<open>Y = 0.299 R + 0.587 G + 0.114 B\<close>\<close>
  "luminance R G B = dadd (dadd (dmul (lit 0.299) R) (dmul (lit 0.587) G)) (dmul (lit 0.114) B)"

definition ycc_reverse_formula :: "rat \<Rightarrow> rat \<Rightarrow> rat \<Rightarrow> rat \<Rightarrow> storage \<Rightarrow> pixel \<Rightarrow> pixel" where
  \<comment> \<open>\<open>R = Y + kr (Cr - delta)\<close>, \<open>G = Y - kg1 (Cr - delta) - kg2 (Cb - delta)\<close>,
      \<open>B = Y + kb (Cb - delta)\<close>\<close>
  "ycc_reverse_formula kr kg1 kg2 kb st q =
     (case q of (Y, Cr, Cb) \<Rightarrow>
        (let cr = vsub st Cr (delta st); cb = vsub st Cb (delta st)
         in (dadd Y (dmul (lit kr) cr),
             dsub (dsub Y (dmul (lit kg1) cr)) (dmul (lit kg2) cb),
             dadd Y (dmul (lit kb) cb))))"

definition narrow_once :: "precision \<Rightarrow> storage \<Rightarrow> pixel \<Rightarrow> error + pixel" where
  \<comment> \<open>each channel of a computed pixel narrowed to the channel type, once\<close>
  "narrow_once src st q =
     (case q of (a, b, c) \<Rightarrow> color (narrow src st a) (narrow src st b) (narrow src st c))"

definition hue :: "precision \<Rightarrow> fp \<Rightarrow> fp \<Rightarrow> fp \<Rightarrow> fp \<Rightarrow> fp \<Rightarrow> fp" where
  \<comment> \<open>the hue selected by the channel that attains \<open>V\<close>, wrapped into \<open>0..360\<close>\<close>
  "hue xt V S R G B =
     (let H = (if feq V R then fdiv xt (fmul xt (fsub xt G B) (Fin 60)) S
               else if feq V G then fadd xt (Fin 120) (fdiv xt (fmul xt (fsub xt B R) (Fin 60)) S)
               else fadd xt (Fin 240) (fdiv xt (fmul xt (fsub xt R G) (Fin 60)) S))
      in if flt H (Fin 0) then fadd xt H (Fin 360) else H)"

definition hsv_raw :: "precision \<Rightarrow> pixel \<Rightarrow> pixel" where
  \<comment> \<open>\<open>V = max(R,G,B)\<close>; \<open>S = (V - min(R,G,B)) / V\<close> if \<open>V \<noteq> 0\<close>, else \<open>0\<close>; the hue\<close>
  "hsv_raw xt q =
     (case q of (R, G, B) \<Rightarrow>
        (let V = fmax (fmax R G) (fmax G B);
             S = (if V \<noteq> Fin 0 then fdiv xt (fsub xt V (fmin (fmin R G) (fmin G B))) V else Fin 0)
         in (hue xt V S R G B, S, V)))"

definition hsl_raw :: "precision \<Rightarrow> pixel \<Rightarrow> pixel" where
  \<comment> \<open>\<open>L = (Vmax + Vmin) / 2\<close>; \<open>S = (Vmax - Vmin) / (Vmax + Vmin)\<close> if \<open>L < 0.5\<close>, else
      \<open>(Vmax - Vmin) / (2 - (Vmax + Vmin))\<close>; the hue\<close>
  "hsl_raw xt q =
     (case q of (R, G, B) \<Rightarrow>
        (let Vmax = fmax (fmax R G) (fmax G B);
             Vmin = fmin (fmin R G) (fmin G B);
             L = fdiv xt (fadd xt Vmax Vmin) (Fin 2);
             S = fdiv xt (fsub xt Vmax Vmin)
                   (if flt L (lit 0.5) then fadd xt Vmax Vmin else fsub xt (Fin 2) (fadd xt Vmax Vmin))
         in (hue xt Vmax S R G B, S, L)))"

definition xyz_formula :: "pixel \<Rightarrow> pixel" where
  \<comment> \<open>the forward matrix applied to \<open>(R, G, B)\<close>\<close>
  "xyz_formula q =
     (case q of (R, G, B) \<Rightarrow>
        (dadd (dadd (dmul (lit 0.412453) R) (dmul (lit 0.357580) G)) (dmul (lit 0.180423) B),
         dadd (dadd (dmul (lit 0.212671) R) (dmul (lit 0.715160) G)) (dmul (lit 0.072169) B),
         dadd (dadd (dmul (lit 0.019334) R) (dmul (lit 0.119193) G)) (dmul (lit 0.950227) B)))"

definition rgb_formula :: "pixel \<Rightarrow> pixel" where
  \<comment> \<open>the reverse matrix applied to \<open>(X, Y, Z)\<close>\<close>
  "rgb_formula q =
     (case q of (X, Y, Z) \<Rightarrow>
        (dadd (dadd (dmul (lit 3.240479) X) (dmul (fneg (lit 1.53715)) Y)) (dmul (fneg (lit 0.498535)) Z),
         dadd (dadd (dmul (fneg (lit 0.969256)) X) (dmul (lit 1.875991) Y)) (dmul (lit 0.041556) Z),
         dadd (dadd (dmul (lit 0.055648) X) (dmul (fneg (lit 0.204043)) Y)) (dmul (lit 1.057311) Z)))"

definition xyz_ext :: "precision \<Rightarrow> pixel \<Rightarrow> pixel" where
  \<comment> \<open>the forward matrix with its result held in the extended type\<close>
  "xyz_ext xt q = (case xyz_formula q of (X, Y, Z) \<Rightarrow> (fconv Double xt X, fconv Double xt Y, fconv Double xt Z))"

definition lightness :: "precision \<Rightarrow> (fp \<Rightarrow> fp \<Rightarrow> fp) \<Rightarrow> fp \<Rightarrow> fp" where
  \<comment> \<open>\<open>116 Y^(1/3)\<close> for \<open>Y > 0.008856\<close>, else \<open>903.3 Y\<close>\<close>
  "lightness xt pw Y =
     (if flt (lit 0.008856) Y then fmul xt (Fin 116) (pw Y (third xt))
      else fconv Double xt (dmul (lit 903.3) Y))"

definition luv_raw :: "precision \<Rightarrow> (fp \<Rightarrow> fp \<Rightarrow> fp) \<Rightarrow> pixel \<Rightarrow> pixel" where
  \<comment> \<open>\<open>L\<close> with the offset 16 in the bright branch; \<open>u = 13 L (u' - un)\<close>,
      \<open>v = 13 L (v' - vn)\<close> with \<open>u' = 4X / (X + 15Y + 3Z)\<close>, \<open>v' = 9Y / (X + 15Y + 3Z)\<close>\<close>
  "luv_raw xt pw q =
     (case xyz_ext xt q of (X, Y, Z) \<Rightarrow>
        (let L = (if flt (lit 0.008856) Y then fsub xt (lightness xt pw Y) (Fin 16)
                  else lightness xt pw Y);
             d = fadd xt (fadd xt X (fmul xt (Fin 15) Y)) (fmul xt (Fin 3) Z);
             u' = fdiv xt (fmul xt (Fin 4) X) d;
             v' = fdiv xt (fmul xt (Fin 9) Y) d
         in (L,
             fmul xt (fmul xt (Fin 13) L) (fsub xt u' (fconv Double xt (lit 0.19793943))),
             fmul xt (fmul xt (Fin 13) L) (fsub xt v' (fconv Double xt (lit 0.46831096))))))"

definition chroma :: "storage \<Rightarrow> fp \<Rightarrow> fp \<Rightarrow> rat \<Rightarrow> fp" where
  \<comment> \<open>\<open>(C - Y) k + delta\<close> on the channel values \<open>C\<close> and \<open>Y\<close>\<close>
  "chroma st C Y k = dadd (dmul (vsub st C Y) (lit k)) (delta st)"

definition RgbToYCrCb_reference :: "storage \<Rightarrow> pixel \<Rightarrow> error + pixel" where
  \<comment> \<open>\<open>Y\<close>, \<open>Cr = (R - Y) 0.713 + delta\<close> and \<open>Cb = (B - Y) 0.564 + delta\<close> computed
      without narrowing, each result channel narrowed once\<close>
  "RgbToYCrCb_reference st q =
     (case q of (R, G, B) \<Rightarrow>
        (let Y = luminance R G B
         in narrow_once Double st
              (Y, dadd (dmul (dsub R Y) (lit 0.713)) (delta st),
                  dadd (dmul (dsub B Y) (lit 0.564)) (delta st))))"

definition chroma_double :: "storage \<Rightarrow> fp \<Rightarrow> fp \<Rightarrow> rat \<Rightarrow> fp" where
  \<comment> \<open>\<open>(C - Y) k + delta\<close> computed wholly in \<^verbatim>\<open>double\<close>\<close>
  "chroma_double st C Y k = dadd (dmul (dsub C Y) (lit k)) (delta st)"

definition YCrCbToRgb_reference :: "storage \<Rightarrow> pixel \<Rightarrow> error + pixel" where
  \<comment> \<open>\<open>R = Y + 1.403 (Cr - delta)\<close>, \<open>G = Y - 0.714 (Cr - delta) - 0.344 (Cb - delta)\<close> and
      \<open>B = Y + 1.773 (Cb - delta)\<close> computed wholly in \<^verbatim>\<open>double\<close>, each result channel
      narrowed once\<close>
  "YCrCbToRgb_reference st q =
     (case q of (Y, Cr, Cb) \<Rightarrow>
        (let cr = dsub Cr (delta st); cb = dsub Cb (delta st)
         in narrow_once Double st
              (dadd Y (dmul (lit 1.403) cr),
               dsub (dsub Y (dmul (lit 0.714) cr)) (dmul (lit 0.344) cb),
               dadd Y (dmul (lit 1.773) cb))))"

section \<open>Basic facts\<close>

lemma to_unsigned_floor:
  assumes "0 \<le> y" and "y < 2 ^ w"
  shows "to_unsigned w (Fin y) = Inr (Fin (of_int \<lfloor>y\<rfloor>))"
  using assms by (simp add: to_unsigned_def trunc_def)

lemma fconv_same: "fconv p p a = a"
  by (simp add: fconv_def)

lemma narrow_same: "narrow p (Float p) a = Inr a"
  by (simp add: narrow_def fconv_same)

lemma RgbToXyz_ext: "RgbToXyz (Float xt) q = Inr (xyz_ext xt q)"
  by (cases q) (simp add: RgbToXyz_def xyz_ext_def xyz_formula_def narrow_def color_def)

lemma RgbToGray_luminance: "RgbToGray st (R, G, B) = narrow Double st (luminance R G B)"
  by (simp add: RgbToGray_def luminance_def)

section \<open>Rounding error\<close>

text \<open>
  A rounded operation returns a finite value whenever its exact result is well inside
  the range of the format, and differs from the exact result by at most half a unit in
  the last place.
\<close>

lemma pow2_powi: "pow2 e = 2 powi e"
  by (simp add: pow2_def power_int_def inverse_eq_divide power_one_over)

lemma pow2_pos: "0 < pow2 e"
  by (simp add: pow2_powi)

lemma pow2_add: "pow2 (a + b) = pow2 a * pow2 b"
  by (simp add: pow2_powi power_int_add)

lemma pow2_mono: "a \<le> b \<Longrightarrow> pow2 a \<le> pow2 b"
  by (simp add: pow2_powi power_int_increasing)

lemma pow2_less_cancel: "pow2 a < pow2 b \<Longrightarrow> a < b"
  using pow2_mono [of b a] by (cases "a < b") auto

lemma ilog2_bounds:
  assumes "0 < x"
  shows "pow2 (ilog2 x) \<le> x \<and> x < pow2 (ilog2 x + 1)"
proof -
  obtain a b where q: "quotient_of x = (a, b)" by (cases "quotient_of x")
  have b: "0 < b" using q by (rule quotient_of_denom_pos)
  have x: "x = of_int a / of_int b" using q by (rule quotient_of_div)
  have a: "0 < a" using assms b x by (simp add: zero_less_divide_iff)
  let ?la = "bitlen a" and ?lb = "bitlen b"
  have la: "1 \<le> ?la" "1 \<le> ?lb" using a b by (simp_all add: bitlen_alt_def)
  have ba: "2 ^ nat (?la - 1) \<le> a" "a < 2 ^ nat ?la" using bitlen_bounds [OF a] by simp_all
  have bb: "2 ^ nat (?lb - 1) \<le> b" "b < 2 ^ nat ?lb" using bitlen_bounds [OF b] by simp_all
  have ra: "pow2 (?la - 1) \<le> of_int a" "of_int a < pow2 ?la"
  proof -
    have "(of_int (2 ^ nat (?la - 1)) :: rat) \<le> of_int a" using ba(1) by (simp only: of_int_le_iff)
    then show "pow2 (?la - 1) \<le> of_int a" using la by (simp add: pow2_def)
    have "(of_int a :: rat) < of_int (2 ^ nat ?la)" using ba(2) by (simp only: of_int_less_iff)
    then show "of_int a < pow2 ?la" using la by (simp add: pow2_def)
  qed
  have rb: "pow2 (?lb - 1) \<le> of_int b" "of_int b < pow2 ?lb"
  proof -
    have "(of_int (2 ^ nat (?lb - 1)) :: rat) \<le> of_int b" using bb(1) by (simp only: of_int_le_iff)
    then show "pow2 (?lb - 1) \<le> of_int b" using la by (simp add: pow2_def)
    have "(of_int b :: rat) < of_int (2 ^ nat ?lb)" using bb(2) by (simp only: of_int_less_iff)
    then show "of_int b < pow2 ?lb" using la by (simp add: pow2_def)
  qed
  let ?k = "?la - ?lb"
  have bpos: "(0::rat) < of_int b" using b by simp
  have lo: "pow2 (?k - 1) < x"
  proof -
    have "pow2 (?k - 1) * of_int b < pow2 (?k - 1) * pow2 ?lb"
      using rb(2) pow2_pos [of "?k - 1"] by simp
    also have "\<dots> = pow2 (?la - 1)"
      by (simp add: pow2_add [symmetric])
    also have "\<dots> \<le> of_int a" by (rule ra(1))
    finally show ?thesis using bpos by (simp add: x pos_less_divide_eq)
  qed
  have hi: "x < pow2 (?k + 1)"
  proof -
    have "of_int a < pow2 ?la" by (rule ra(2))
    also have "\<dots> = pow2 (?k + 1) * pow2 (?lb - 1)"
      by (simp add: pow2_add [symmetric])
    also have "\<dots> \<le> pow2 (?k + 1) * of_int b"
      using rb(1) pow2_pos [of "?k + 1"] by simp
    finally show ?thesis using bpos by (simp add: x pos_divide_less_eq)
  qed
  show ?thesis
  proof (cases "pow2 ?k \<le> x")
    case True
    then have "ilog2 x = ?k" by (simp add: ilog2_def q)
    then show ?thesis using True hi by simp
  next
    case False
    then have "ilog2 x = ?k - 1" by (simp add: ilog2_def q)
    then show ?thesis using False lo by simp
  qed
qed

lemma rne_error: "\<bar>of_int (rne q) - q\<bar> \<le> 1 / 2"
proof -
  have "of_int \<lfloor>q\<rfloor> \<le> q" "q < of_int \<lfloor>q\<rfloor> + 1" by linarith+
  then show ?thesis
    by (auto simp add: rne_def Let_def)
qed

lemma fround_error:
  assumes "\<bar>x\<bar> < pow2 (emax p)"
  shows "\<exists>y. fround p x = Fin y \<and> \<bar>y - x\<bar> \<le> (\<bar>x\<bar> + pow2 (emin p)) / 2 ^ prec p"
proof (cases "x = 0")
  case True
  then show ?thesis using pow2_pos [of "emin p"] by (simp add: fround_def)
next
  case False
  then have ax: "0 < \<bar>x\<bar>" by simp
  define e where "e = max (ilog2 \<bar>x\<bar>) (emin p)"
  define s where "s = pow2 (e - int (prec p) + 1)"
  define m where "m = rne (x / s)"
  have il: "pow2 (ilog2 \<bar>x\<bar>) \<le> \<bar>x\<bar>" using ilog2_bounds [OF ax] by simp
  have "pow2 (ilog2 \<bar>x\<bar>) < pow2 (emax p)" using il assms by simp
  then have "ilog2 \<bar>x\<bar> < emax p" by (rule pow2_less_cancel)
  moreover have "emin p < emax p" by (cases p) simp_all
  ultimately have el: "e < emax p" by (simp add: e_def)
  have spos: "0 < s" by (simp add: s_def pow2_pos)
  have fr: "fround p x = Fin (of_int m * s)"
    using False el by (simp add: fround_def Let_def e_def [symmetric] s_def [symmetric] m_def [symmetric])
  have "\<bar>of_int m - x / s\<bar> \<le> 1 / 2" unfolding m_def by (rule rne_error)
  then have "\<bar>of_int m - x / s\<bar> * s \<le> 1 / 2 * s" using spos by (simp only: mult_le_cancel_right_pos)
  moreover have "\<bar>of_int m - x / s\<bar> * s = \<bar>of_int m * s - x\<bar>"
  proof -
    have "\<bar>of_int m - x / s\<bar> * s = \<bar>(of_int m - x / s) * s\<bar>" using spos by (simp add: abs_mult)
    also have "(of_int m - x / s) * s = of_int m * s - x" using spos by (simp add: algebra_simps)
    finally show ?thesis .
  qed
  ultimately have err: "\<bar>of_int m * s - x\<bar> \<le> s / 2" by simp
  have "e - int (prec p) + 1 = e + (1 - int (prec p))" by simp
  then have "s = pow2 e * pow2 (1 - int (prec p))"
    by (simp only: s_def pow2_add)
  moreover have "pow2 (1 - int (prec p)) = 2 / 2 ^ prec p"
    by (cases p) (simp_all add: pow2_def)
  ultimately have s2: "s / 2 = pow2 e / 2 ^ prec p" by simp
  have "pow2 e \<le> \<bar>x\<bar> + pow2 (emin p)"
    using il pow2_pos [of "emin p"] ax by (auto simp add: e_def max_def)
  then have "pow2 e / 2 ^ prec p \<le> (\<bar>x\<bar> + pow2 (emin p)) / 2 ^ prec p"
    by (simp add: divide_right_mono)
  with err s2 fr show ?thesis by simp
qed

lemma fround_near:
  assumes "\<bar>x\<bar> \<le> B" and "B \<le> 1000000"
  shows "\<exists>y. fround p x = Fin y \<and> \<bar>y - x\<bar> \<le> B * (6 / 100000000) + 1 / 1000000000000000000"
proof -
  have "(1000000::rat) < pow2 (emax p)" by (cases p) (simp_all add: pow2_def)
  with assms have "\<bar>x\<bar> < pow2 (emax p)" by simp
  from fround_error [OF this] obtain y where
    y: "fround p x = Fin y" "\<bar>y - x\<bar> \<le> (\<bar>x\<bar> + pow2 (emin p)) / 2 ^ prec p" by blast
  have "pow2 (emin p) \<le> pow2 (- 126)" by (rule pow2_mono) (cases p, simp_all)
  then have m: "pow2 (emin p) \<le> 1 / 2 ^ 126" by (simp add: pow2_def)
  have B: "0 \<le> B" using assms(1) by simp
  have "(2::rat) ^ 24 \<le> 2 ^ prec p" by (cases p) simp_all
  then have "(\<bar>x\<bar> + pow2 (emin p)) / 2 ^ prec p \<le> (\<bar>x\<bar> + pow2 (emin p)) / 2 ^ 24"
    using pow2_pos [of "emin p"] by (intro divide_left_mono) simp_all
  also have "\<dots> \<le> (B + 1 / 2 ^ 126) / 2 ^ 24"
    using m assms(1) by (simp add: divide_right_mono)
  also have "\<dots> \<le> B * (6 / 100000000) + 1 / 1000000000000000000" using B by simp
  finally have "(\<bar>x\<bar> + pow2 (emin p)) / 2 ^ prec p
      \<le> B * (6 / 100000000) + 1 / 1000000000000000000" .
  with y(2) have "\<bar>y - x\<bar> \<le> B * (6 / 100000000) + 1 / 1000000000000000000"
    by (rule order_trans)
  then show ?thesis using y(1) by blast
qed

lemma fround_double_near:
  assumes "\<bar>x\<bar> \<le> B" and "B \<le> 1000000"
  shows "\<exists>y. fround Double x = Fin y \<and> \<bar>y - x\<bar> \<le> B * (1 / 1000000000000000) + 1 / 1000000000000000000"
proof -
  have "(1000000::rat) < pow2 (emax Double)" by (simp add: pow2_def)
  with assms have "\<bar>x\<bar> < pow2 (emax Double)" by simp
  from fround_error [OF this] obtain y where
    y: "fround Double x = Fin y" "\<bar>y - x\<bar> \<le> (\<bar>x\<bar> + pow2 (emin Double)) / 2 ^ prec Double" by blast
  have "pow2 (emin Double) \<le> pow2 (- 126)" by (rule pow2_mono) simp
  then have m: "pow2 (emin Double) \<le> 1 / 2 ^ 126" by (simp add: pow2_def)
  have B: "0 \<le> B" using assms(1) by simp
  have "(\<bar>x\<bar> + pow2 (emin Double)) / 2 ^ prec Double \<le> (B + 1 / 2 ^ 126) / 2 ^ 53"
    using m assms(1) by (simp add: divide_right_mono)
  also have "\<dots> \<le> B * (1 / 1000000000000000) + 1 / 1000000000000000000" using B by simp
  finally have "(\<bar>x\<bar> + pow2 (emin Double)) / 2 ^ prec Double
      \<le> B * (1 / 1000000000000000) + 1 / 1000000000000000000" .
  with y(2) have "\<bar>y - x\<bar> \<le> B * (1 / 1000000000000000) + 1 / 1000000000000000000"
    by (rule order_trans)
  then show ?thesis using y(1) by blast
qed

lemma abs_mult_le:
  fixes a b :: rat
  assumes "\<bar>a\<bar> \<le> A" and "\<bar>b\<bar> \<le> B"
  shows "\<bar>a * b\<bar> \<le> A * B"
  unfolding abs_mult using assms by (intro mult_mono) simp_all

lemma coef_mul:
  assumes "k = Fin c'" and "\<bar>c' - c\<bar> \<le> 1 / 100000000000000" and "\<bar>c\<bar> \<le> 4" and "\<bar>x\<bar> \<le> 2"
  shows "\<exists>m. dmul k (Fin x) = Fin m \<and> \<bar>m - c * x\<bar> \<le> 4 / 100000000000000"
proof -
  have c': "\<bar>c'\<bar> \<le> 5" using assms(2,3) by linarith
  have b: "\<bar>c' * x\<bar> \<le> 5 * 2" using c' assms(4) by (rule abs_mult_le)
  from fround_double_near [OF this] obtain m where
    m: "fround Double (c' * x) = Fin m"
      "\<bar>m - c' * x\<bar> \<le> 5 * 2 * (1 / 1000000000000000) + 1 / 1000000000000000000"
    by auto
  have "\<bar>(c' - c) * x\<bar> \<le> 1 / 100000000000000 * 2" using assms(2,4) by (rule abs_mult_le)
  then have d: "\<bar>c' * x - c * x\<bar> \<le> 2 / 100000000000000" by (simp add: algebra_simps)
  have "\<bar>m - c * x\<bar> \<le> 4 / 100000000000000" using m(2) d by linarith
  then show ?thesis using m(1) assms(1) by simp
qed

lemma row_error:
  assumes k1: "k1 = Fin c1'" "\<bar>c1' - c1\<bar> \<le> 1 / 100000000000000" "\<bar>c1\<bar> \<le> 4"
    and k2: "k2 = Fin c2'" "\<bar>c2' - c2\<bar> \<le> 1 / 100000000000000" "\<bar>c2\<bar> \<le> 4"
    and k3: "k3 = Fin c3'" "\<bar>c3' - c3\<bar> \<le> 1 / 100000000000000" "\<bar>c3\<bar> \<le> 4"
    and x: "\<bar>x1\<bar> \<le> 2" "\<bar>x2\<bar> \<le> 2" "\<bar>x3\<bar> \<le> 2"
    and v: "\<bar>c1 * x1 + c2 * x2 + c3 * x3\<bar> \<le> V" "V \<le> 24"
  shows "\<exists>z. fconv Double p (dadd (dadd (dmul k1 (Fin x1)) (dmul k2 (Fin x2))) (dmul k3 (Fin x3))) = Fin z
           \<and> \<bar>z - (c1 * x1 + c2 * x2 + c3 * x3)\<bar> \<le> V * (6 / 100000000) + 1 / 1000000000000"
proof -
  from coef_mul [OF k1 x(1)] obtain m1 where
    m1: "dmul k1 (Fin x1) = Fin m1" "\<bar>m1 - c1 * x1\<bar> \<le> 4 / 100000000000000" by blast
  from coef_mul [OF k2 x(2)] obtain m2 where
    m2: "dmul k2 (Fin x2) = Fin m2" "\<bar>m2 - c2 * x2\<bar> \<le> 4 / 100000000000000" by blast
  from coef_mul [OF k3 x(3)] obtain m3 where
    m3: "dmul k3 (Fin x3) = Fin m3" "\<bar>m3 - c3 * x3\<bar> \<le> 4 / 100000000000000" by blast
  have b1: "\<bar>c1 * x1\<bar> \<le> 4 * 2" using k1(3) x(1) by (rule abs_mult_le)
  have b2: "\<bar>c2 * x2\<bar> \<le> 4 * 2" using k2(3) x(2) by (rule abs_mult_le)
  have b3: "\<bar>c3 * x3\<bar> \<le> 4 * 2" using k3(3) x(3) by (rule abs_mult_le)
  have n1: "\<bar>m1\<bar> \<le> 9" using m1(2) b1 by linarith
  have n2: "\<bar>m2\<bar> \<le> 9" using m2(2) b2 by linarith
  have n3: "\<bar>m3\<bar> \<le> 9" using m3(2) b3 by linarith
  have s12: "\<bar>m1 + m2\<bar> \<le> 18" using n1 n2 by linarith
  from fround_double_near [OF s12] obtain t1 where
    t1: "fround Double (m1 + m2) = Fin t1"
      "\<bar>t1 - (m1 + m2)\<bar> \<le> 18 * (1 / 1000000000000000) + 1 / 1000000000000000000"
    by auto
  have e1: "\<bar>t1 - (c1 * x1 + c2 * x2)\<bar> \<le> 10 / 100000000000000" using t1(2) m1(2) m2(2) by linarith
  have "\<bar>t1\<bar> \<le> 17" using e1 b1 b2 by linarith
  then have s3: "\<bar>t1 + m3\<bar> \<le> 26" using n3 by linarith
  from fround_double_near [OF s3] obtain t2 where
    t2: "fround Double (t1 + m3) = Fin t2"
      "\<bar>t2 - (t1 + m3)\<bar> \<le> 26 * (1 / 1000000000000000) + 1 / 1000000000000000000"
    by auto
  let ?v = "c1 * x1 + c2 * x2 + c3 * x3"
  have e2: "\<bar>t2 - ?v\<bar> \<le> 17 / 100000000000000" using t2(2) e1 m3(2) by linarith
  have d: "dadd (dadd (dmul k1 (Fin x1)) (dmul k2 (Fin x2))) (dmul k3 (Fin x3)) = Fin t2"
    by (simp add: m1(1) m2(1) m3(1) t1(1) t2(1))
  have tv: "\<bar>t2\<bar> \<le> V + 17 / 100000000000000" using e2 v(1) by linarith
  have "V + 17 / 100000000000000 \<le> 1000000" using v(2) by simp
  from fround_near [OF tv this, of p] obtain z where
    z: "fround p t2 = Fin z"
      "\<bar>z - t2\<bar> \<le> (V + 17 / 100000000000000) * (6 / 100000000) + 1 / 1000000000000000000" by blast
  have V: "0 \<le> V" using v(1) by simp
  have "(V + 17 / 100000000000000) * (6 / 100000000) + 1 / 1000000000000000000
      \<le> V * (6 / 100000000) + 2 / 1000000000000000000"
    by (simp add: algebra_simps)
  with z(2) have z': "\<bar>z - t2\<bar> \<le> V * (6 / 100000000) + 2 / 1000000000000000000"
    by (rule order_trans)
  show ?thesis
  proof (cases "p = Double")
    case True
    then have "fconv Double p (Fin t2) = Fin t2" by (simp add: fconv_def)
    moreover have "\<bar>t2 - ?v\<bar> \<le> V * (6 / 100000000) + 1 / 1000000000000" using e2 V by linarith
    ultimately show ?thesis using d by simp
  next
    case False
    then have "fconv Double p (Fin t2) = Fin z" using z(1) by (simp add: fconv_def)
    moreover have "\<bar>z - ?v\<bar> \<le> V * (6 / 100000000) + 1 / 1000000000000" using z' e2 by linarith
    ultimately show ?thesis using d by simp
  qed
qed

lemma lit_error:
  assumes "\<bar>c\<bar> \<le> 4"
  shows "\<exists>c'. lit c = Fin c' \<and> \<bar>c' - c\<bar> \<le> 1 / 100000000000000"
proof -
  from fround_double_near [OF assms] obtain c' where
    c': "fround Double c = Fin c'" "\<bar>c' - c\<bar> \<le> 4 * (1 / 1000000000000000) + 1 / 1000000000000000000"
    by auto
  have "\<bar>c' - c\<bar> \<le> 1 / 100000000000000" using c'(2) by linarith
  then show ?thesis using c'(1) by (simp add: lit_def)
qed

lemma neg_lit_error:
  assumes "\<bar>c\<bar> \<le> 4"
  shows "\<exists>c'. fneg (lit c) = Fin c' \<and> \<bar>c' - (- c)\<bar> \<le> 1 / 100000000000000"
proof -
  from lit_error [OF assms] obtain c' where
    c': "lit c = Fin c'" "\<bar>c' - c\<bar> \<le> 1 / 100000000000000" by blast
  have "\<bar>- c' - (- c)\<bar> \<le> 1 / 100000000000000" using c'(2) by linarith
  moreover have "fneg (lit c) = Fin (- c')" using c'(1) by simp
  ultimately show ?thesis by blast
qed

lemma matrix_row:
  assumes c: "\<bar>c1\<bar> \<le> 4" "\<bar>c2\<bar> \<le> 4" "\<bar>c3\<bar> \<le> 4"
    and k: "k1 = lit c1 \<or> k1 = fneg (lit (- c1))" "k2 = lit c2 \<or> k2 = fneg (lit (- c2))"
      "k3 = lit c3 \<or> k3 = fneg (lit (- c3))"
    and x: "\<bar>x1\<bar> \<le> 2" "\<bar>x2\<bar> \<le> 2" "\<bar>x3\<bar> \<le> 2"
    and v: "\<bar>c1 * x1 + c2 * x2 + c3 * x3\<bar> \<le> V" "V \<le> 24"
  shows "\<exists>z. narrow Double (Float p)
               (dadd (dadd (dmul k1 (Fin x1)) (dmul k2 (Fin x2))) (dmul k3 (Fin x3))) = Inr (Fin z)
           \<and> \<bar>z - (c1 * x1 + c2 * x2 + c3 * x3)\<bar> \<le> V * (6 / 100000000) + 1 / 1000000000000"
proof -
  have n: "\<exists>c'. k = Fin c' \<and> \<bar>c' - c\<bar> \<le> 1 / 100000000000000"
    if "\<bar>c\<bar> \<le> 4" and "k = lit c \<or> k = fneg (lit (- c))" for k c
  proof -
    have "\<bar>- c\<bar> \<le> 4" using that(1) by simp
    from lit_error [OF that(1)] neg_lit_error [OF this] that(2) show ?thesis by auto
  qed
  from n [OF c(1) k(1)] obtain c1' where k1: "k1 = Fin c1'" "\<bar>c1' - c1\<bar> \<le> 1 / 100000000000000" by blast
  from n [OF c(2) k(2)] obtain c2' where k2: "k2 = Fin c2'" "\<bar>c2' - c2\<bar> \<le> 1 / 100000000000000" by blast
  from n [OF c(3) k(3)] obtain c3' where k3: "k3 = Fin c3'" "\<bar>c3' - c3\<bar> \<le> 1 / 100000000000000" by blast
  from row_error [OF k1 c(1) k2 c(2) k3 c(3) x v, of p] show ?thesis
    by (simp add: narrow_def)
qed

lemma RgbToXyz_error:
  assumes "0 \<le> r" "r \<le> 1" "0 \<le> g" "g \<le> 1" "0 \<le> b" "b \<le> 1"
  shows "\<exists>X Y Z. RgbToXyz (Float p) (Fin r, Fin g, Fin b) = Inr (Fin X, Fin Y, Fin Z)
           \<and> \<bar>X - (412453 / 1000000 * r + 357580 / 1000000 * g + 180423 / 1000000 * b)\<bar> \<le> 7 / 100000000
           \<and> \<bar>Y - (212671 / 1000000 * r + 715160 / 1000000 * g + 72169 / 1000000 * b)\<bar> \<le> 7 / 100000000
           \<and> \<bar>Z - (19334 / 1000000 * r + 119193 / 1000000 * g + 950227 / 1000000 * b)\<bar> \<le> 7 / 100000000"
proof -
  have i: "\<bar>r\<bar> \<le> 2" "\<bar>g\<bar> \<le> 2" "\<bar>b\<bar> \<le> 2" using assms by simp_all
  have "\<bar>412453 / 1000000 * r + 357580 / 1000000 * g + 180423 / 1000000 * b\<bar> \<le> 11 / 10"
    using assms by linarith
  from matrix_row [OF _ _ _ _ _ _ i this, of "lit 0.412453" "lit 0.357580" "lit 0.180423" p]
  obtain X where X: "narrow Double (Float p)
      (dadd (dadd (dmul (lit 0.412453) (Fin r)) (dmul (lit 0.357580) (Fin g))) (dmul (lit 0.180423) (Fin b)))
      = Inr (Fin X)"
    "\<bar>X - (412453 / 1000000 * r + 357580 / 1000000 * g + 180423 / 1000000 * b)\<bar> \<le> 7 / 100000000"
    by auto
  have "\<bar>212671 / 1000000 * r + 715160 / 1000000 * g + 72169 / 1000000 * b\<bar> \<le> 11 / 10"
    using assms by linarith
  from matrix_row [OF _ _ _ _ _ _ i this, of "lit 0.212671" "lit 0.715160" "lit 0.072169" p]
  obtain Y where Y: "narrow Double (Float p)
      (dadd (dadd (dmul (lit 0.212671) (Fin r)) (dmul (lit 0.715160) (Fin g))) (dmul (lit 0.072169) (Fin b)))
      = Inr (Fin Y)"
    "\<bar>Y - (212671 / 1000000 * r + 715160 / 1000000 * g + 72169 / 1000000 * b)\<bar> \<le> 7 / 100000000"
    by auto
  have "\<bar>19334 / 1000000 * r + 119193 / 1000000 * g + 950227 / 1000000 * b\<bar> \<le> 11 / 10"
    using assms by linarith
  from matrix_row [OF _ _ _ _ _ _ i this, of "lit 0.019334" "lit 0.119193" "lit 0.950227" p]
  obtain Z where Z: "narrow Double (Float p)
      (dadd (dadd (dmul (lit 0.019334) (Fin r)) (dmul (lit 0.119193) (Fin g))) (dmul (lit 0.950227) (Fin b)))
      = Inr (Fin Z)"
    "\<bar>Z - (19334 / 1000000 * r + 119193 / 1000000 * g + 950227 / 1000000 * b)\<bar> \<le> 7 / 100000000"
    by auto
  have "RgbToXyz (Float p) (Fin r, Fin g, Fin b) = Inr (Fin X, Fin Y, Fin Z)"
    by (simp only: RgbToXyz_def prod.case X(1) Y(1) Z(1) color_def sum.case)
  then show ?thesis using X(2) Y(2) Z(2) by blast
qed

lemma XyzToRgb_error:
  assumes x: "\<bar>X\<bar> \<le> 2" "\<bar>Y\<bar> \<le> 2" "\<bar>Z\<bar> \<le> 2"
    and v: "\<bar>3240479 / 1000000 * X + - (153715 / 100000) * Y + - (498535 / 1000000) * Z\<bar> \<le> 11 / 10"
      "\<bar>- (969256 / 1000000) * X + 1875991 / 1000000 * Y + 41556 / 1000000 * Z\<bar> \<le> 11 / 10"
      "\<bar>55648 / 1000000 * X + - (204043 / 1000000) * Y + 1057311 / 1000000 * Z\<bar> \<le> 11 / 10"
  shows "\<exists>r' g' b'. XyzToRgb (Float p) (Fin X, Fin Y, Fin Z) = Inr (Fin r', Fin g', Fin b')
           \<and> \<bar>r' - (3240479 / 1000000 * X + - (153715 / 100000) * Y + - (498535 / 1000000) * Z)\<bar>
                \<le> 7 / 100000000
           \<and> \<bar>g' - (- (969256 / 1000000) * X + 1875991 / 1000000 * Y + 41556 / 1000000 * Z)\<bar>
                \<le> 7 / 100000000
           \<and> \<bar>b' - (55648 / 1000000 * X + - (204043 / 1000000) * Y + 1057311 / 1000000 * Z)\<bar>
                \<le> 7 / 100000000"
proof -
  from matrix_row [OF _ _ _ _ _ _ x v(1), of "lit 3.240479" "fneg (lit 1.53715)" "fneg (lit 0.498535)" p]
  obtain r' where r: "narrow Double (Float p)
      (dadd (dadd (dmul (lit 3.240479) (Fin X)) (dmul (fneg (lit 1.53715)) (Fin Y)))
            (dmul (fneg (lit 0.498535)) (Fin Z))) = Inr (Fin r')"
    "\<bar>r' - (3240479 / 1000000 * X + - (153715 / 100000) * Y + - (498535 / 1000000) * Z)\<bar>
       \<le> 7 / 100000000"
    by auto
  from matrix_row [OF _ _ _ _ _ _ x v(2), of "fneg (lit 0.969256)" "lit 1.875991" "lit 0.041556" p]
  obtain g' where g: "narrow Double (Float p)
      (dadd (dadd (dmul (fneg (lit 0.969256)) (Fin X)) (dmul (lit 1.875991) (Fin Y)))
            (dmul (lit 0.041556) (Fin Z))) = Inr (Fin g')"
    "\<bar>g' - (- (969256 / 1000000) * X + 1875991 / 1000000 * Y + 41556 / 1000000 * Z)\<bar>
       \<le> 7 / 100000000"
    by auto
  from matrix_row [OF _ _ _ _ _ _ x v(3), of "lit 0.055648" "fneg (lit 0.204043)" "lit 1.057311" p]
  obtain b' where b: "narrow Double (Float p)
      (dadd (dadd (dmul (lit 0.055648) (Fin X)) (dmul (fneg (lit 0.204043)) (Fin Y)))
            (dmul (lit 1.057311) (Fin Z))) = Inr (Fin b')"
    "\<bar>b' - (55648 / 1000000 * X + - (204043 / 1000000) * Y + 1057311 / 1000000 * Z)\<bar>
       \<le> 7 / 100000000"
    by auto
  have "XyzToRgb (Float p) (Fin X, Fin Y, Fin Z) = Inr (Fin r', Fin g', Fin b')"
    by (simp only: XyzToRgb_def prod.case r(1) g(1) b(1) color_def sum.case)
  then show ?thesis using r(2) g(2) b(2) by blast
qed

lemma rne_nonneg: "0 \<le> q \<Longrightarrow> 0 \<le> rne q"
proof -
  assume "0 \<le> q"
  then have "0 \<le> \<lfloor>q\<rfloor>" by simp
  then show ?thesis by (simp add: rne_def Let_def)
qed

lemma fround_nonneg:
  assumes "0 \<le> x" and "fround p x = Fin y"
  shows "0 \<le> y"
proof (cases "x = 0")
  case True
  then show ?thesis using assms(2) by (simp add: fround_def)
next
  case False
  define s where "s = pow2 (max (ilog2 \<bar>x\<bar>) (emin p) - int (prec p) + 1)"
  have s: "0 < s" by (simp add: s_def pow2_pos)
  then have "0 \<le> x / s" using assms(1) by simp
  then have "0 \<le> rne (x / s)" by (rule rne_nonneg)
  then have "(0::rat) \<le> of_int (rne (x / s)) * s" using s by simp
  moreover have "y = of_int (rne (x / s)) * s"
    using assms(2) False by (simp add: fround_def Let_def s_def [symmetric] split: if_splits)
  ultimately show ?thesis by simp
qed

lemma luma_term:
  assumes "\<bar>c\<bar> \<le> 4" and "0 \<le> c" and "0 \<le> x" and "x \<le> 65535"
  shows "\<exists>m. dmul (lit c) (Fin x) = Fin m \<and> 0 \<le> m \<and> \<bar>m - c * x\<bar> \<le> 1 / 100000000"
proof -
  from lit_error [OF assms(1)] obtain c' where
    c': "lit c = Fin c'" "\<bar>c' - c\<bar> \<le> 1 / 100000000000000" by blast
  have c0: "0 \<le> c'" using assms(2) c'(1) unfolding lit_def by (rule fround_nonneg)
  have "\<bar>c'\<bar> \<le> 5" using c'(2) assms(1) by linarith
  moreover have "\<bar>x\<bar> \<le> 65535" using assms(3,4) by simp
  ultimately have b: "\<bar>c' * x\<bar> \<le> 5 * 65535" by (rule abs_mult_le)
  from fround_double_near [OF this] obtain m where
    m: "fround Double (c' * x) = Fin m"
      "\<bar>m - c' * x\<bar> \<le> 5 * 65535 * (1 / 1000000000000000) + 1 / 1000000000000000000"
    by auto
  have "0 \<le> c' * x" using c0 assms(3) by simp
  then have m0: "0 \<le> m" using m(1) by (rule fround_nonneg)
  have "\<bar>(c' - c) * x\<bar> \<le> 1 / 100000000000000 * 65535"
    using c'(2) \<open>\<bar>x\<bar> \<le> 65535\<close> by (rule abs_mult_le)
  then have d: "\<bar>c' * x - c * x\<bar> \<le> 65535 / 100000000000000" by (simp add: algebra_simps)
  have "\<bar>m - c * x\<bar> \<le> 1 / 100000000" using m(2) d by linarith
  then show ?thesis using m(1) m0 c'(1) by simp
qed

lemma luminance_bounds:
  assumes "0 \<le> R" "R \<le> N" "0 \<le> G" "G \<le> N" "0 \<le> B" "B \<le> N" "N \<le> 65535"
  shows "\<exists>y. luminance (Fin R) (Fin G) (Fin B) = Fin y \<and> 0 \<le> y \<and> y < N + 1"
proof -
  have r: "R \<le> 65535" "G \<le> 65535" "B \<le> 65535" using assms by linarith+
  from luma_term [OF _ _ assms(1) r(1), of "0.299"] obtain m1 where
    m1: "dmul (lit 0.299) (Fin R) = Fin m1" "0 \<le> m1" "\<bar>m1 - 299 / 1000 * R\<bar> \<le> 1 / 100000000"
    by auto
  from luma_term [OF _ _ assms(3) r(2), of "0.587"] obtain m2 where
    m2: "dmul (lit 0.587) (Fin G) = Fin m2" "0 \<le> m2" "\<bar>m2 - 587 / 1000 * G\<bar> \<le> 1 / 100000000"
    by auto
  from luma_term [OF _ _ assms(5) r(3), of "0.114"] obtain m3 where
    m3: "dmul (lit 0.114) (Fin B) = Fin m3" "0 \<le> m3" "\<bar>m3 - 114 / 1000 * B\<bar> \<le> 1 / 100000000"
    by auto
  have n: "\<bar>m1\<bar> \<le> 20000" "\<bar>m2\<bar> \<le> 40000" "\<bar>m3\<bar> \<le> 8000"
    using m1(3) m2(3) m3(3) assms(1,3,5) r by linarith+
  then have "\<bar>m1 + m2\<bar> \<le> 60000" by linarith
  from fround_double_near [OF this] obtain t1 where
    t1: "fround Double (m1 + m2) = Fin t1"
      "\<bar>t1 - (m1 + m2)\<bar> \<le> 60000 * (1 / 1000000000000000) + 1 / 1000000000000000000"
    by auto
  have "0 \<le> m1 + m2" using m1(2) m2(2) by simp
  then have t10: "0 \<le> t1" using t1(1) by (rule fround_nonneg)
  have "\<bar>t1\<bar> \<le> 60001" using t1(2) \<open>\<bar>m1 + m2\<bar> \<le> 60000\<close> by linarith
  then have "\<bar>t1 + m3\<bar> \<le> 70000" using n(3) by linarith
  from fround_double_near [OF this] obtain y where
    y: "fround Double (t1 + m3) = Fin y"
      "\<bar>y - (t1 + m3)\<bar> \<le> 70000 * (1 / 1000000000000000) + 1 / 1000000000000000000"
    by auto
  have "0 \<le> t1 + m3" using t10 m3(2) by simp
  then have y0: "0 \<le> y" using y(1) by (rule fround_nonneg)
  have e: "\<bar>y - (299 / 1000 * R + 587 / 1000 * G + 114 / 1000 * B)\<bar> \<le> 1 / 10000000"
    using y(2) t1(2) m1(3) m2(3) m3(3) by linarith
  have "299 / 1000 * R + 587 / 1000 * G + 114 / 1000 * B \<le> N" using assms by linarith
  then have "y < N + 1" using e by linarith
  moreover have "luminance (Fin R) (Fin G) (Fin B) = Fin y"
    by (simp only: luminance_def m1(1) m2(1) m3(1) fadd.simps t1(1) y(1))
  ultimately show ?thesis using y0 by blast
qed

section \<open>Whole numbers\<close>

text \<open>
  A whole number below \<open>2\<^sup>2\<^sup>4\<close> in magnitude is a value of both formats, so the
  difference of two integer channels is the same in \<^verbatim>\<open>int\<close> and in \<^verbatim>\<open>double\<close>.
\<close>

lemma rne_of_int: "rne (of_int n) = n"
  by (simp add: rne_def Let_def)

lemma fround_int:
  assumes "\<bar>n\<bar> < 16777216"
  shows "fround p (of_int n) = Fin (of_int n)"
proof (cases "n = 0")
  case True
  then show ?thesis by (simp add: fround_def)
next
  case False
  define x :: rat where "x = of_int n"
  define e where "e = ilog2 \<bar>x\<bar>"
  define k where "k = nat (int (prec p) - 1 - e)"
  have x0: "x \<noteq> 0" using False by (simp add: x_def)
  have x1: "1 \<le> \<bar>x\<bar>"
  proof -
    have "1 \<le> \<bar>n\<bar>" using False by simp
    then have "(1::rat) \<le> of_int \<bar>n\<bar>" by (simp only: of_int_1_le_iff)
    then show ?thesis by (simp add: x_def)
  qed
  have x2: "\<bar>x\<bar> < pow2 24"
  proof -
    have "(of_int \<bar>n\<bar> :: rat) < of_int 16777216" using assms by (simp only: of_int_less_iff)
    then show ?thesis by (simp add: x_def pow2_def)
  qed
  have "0 < \<bar>x\<bar>" using x1 by simp
  from ilog2_bounds [OF this] have b: "pow2 e \<le> \<bar>x\<bar>" "\<bar>x\<bar> < pow2 (e + 1)"
    by (simp_all add: e_def)
  have "pow2 0 < pow2 (e + 1)" using x1 b(2) by (simp add: pow2_def)
  then have e0: "0 \<le> e" using pow2_less_cancel by fastforce
  have "pow2 e < pow2 24" using b(1) x2 by simp
  then have e1: "e < 24" by (rule pow2_less_cancel)
  have p: "24 \<le> int (prec p)" "emin p < 0" "24 < emax p" by (cases p; simp)+
  have m: "max e (emin p) = e" using e0 p(2) by simp
  have s: "pow2 (e - int (prec p) + 1) = 1 / 2 ^ k"
  proof (cases "e - int (prec p) + 1 = 0")
    case True
    then have "k = 0" by (simp add: k_def)
    then show ?thesis using True by (simp add: pow2_def)
  next
    case False
    then have "e - int (prec p) + 1 < 0" using e1 p(1) by simp
    moreover have "nat (- (e - int (prec p) + 1)) = k" by (simp add: k_def)
    ultimately show ?thesis by (simp add: pow2_def)
  qed
  have q: "x / (1 / 2 ^ k) = of_int (n * 2 ^ k)" by (simp add: x_def)
  have r: "rne (x / (1 / 2 ^ k)) = n * 2 ^ k" by (simp only: q rne_of_int)
  have v: "of_int (n * 2 ^ k) * (1 / 2 ^ k) = x" by (simp add: x_def)
  have o: "\<not> (emax p < e \<or> (e = emax p \<and> \<bar>n * 2 ^ k\<bar> = 2 ^ prec p))" using e1 p(3) by simp
  have "fround p x = Fin x"
    unfolding fround_def Let_def e_def [symmetric] m s r v using x0 o by simp
  then show ?thesis by (simp only: x_def)
qed

lemma dsub_int:
  assumes "\<bar>i\<bar> \<le> 65535" and "\<bar>j\<bar> \<le> 65535"
  shows "dsub (Fin (of_int i)) (Fin (of_int j)) = int_sub (Fin (of_int i)) (Fin (of_int j))"
proof -
  have "\<bar>i - j\<bar> < 16777216" using assms by linarith
  then have "fround Double (of_int (i - j)) = Fin (of_int (i - j))" by (rule fround_int)
  then show ?thesis by (simp add: fsub_def)
qed

lemma channel_int:
  assumes "st = U8 \<or> st = U16" and "is_channel st a"
  shows "\<exists>i. a = Fin (of_int i) \<and> \<bar>i\<bar> \<le> 65535"
proof -
  from assms obtain n :: nat where n: "a = Fin (of_nat n)" "n < 65536"
    by (auto simp add: is_channel_def)
  have "a = Fin (of_int (int n))" using n(1) by simp
  moreover have "\<bar>int n\<bar> \<le> 65535" using n(2) by simp
  ultimately show ?thesis by blast
qed

lemma delta_int: "st = U8 \<or> st = U16 \<Longrightarrow> \<exists>i. delta st = Fin (of_int i) \<and> \<bar>i\<bar> \<le> 65535"
proof -
  assume "st = U8 \<or> st = U16"
  moreover have "delta U8 = Fin (of_int 127)" "delta U16 = Fin (of_int 32767)" by code_simp+
  ultimately show ?thesis by fastforce
qed

lemma narrow_int:
  assumes "st = U8 \<or> st = U16" and "narrow src st a = Inr Y"
  shows "\<exists>i. Y = Fin (of_int i) \<and> \<bar>i\<bar> \<le> 65535"
proof -
  define w :: nat where "w = (if st = U8 then 8 else 16)"
  have "to_unsigned w a = Inr Y" using assms by (auto simp add: narrow_def w_def)
  then obtain x where x: "a = Fin x" "- 1 < x" "x < 2 ^ w" "Y = Fin (of_int (trunc x))"
    by (auto simp add: to_unsigned_def split: fp.splits if_splits)
  have "(2::rat) ^ w \<le> 65536" by (simp add: w_def)
  then have "x < 65536" using x(3) by linarith
  then have "\<lfloor>x\<rfloor> < 65536" "\<lceil>x\<rceil> \<le> 65536" by (simp_all add: floor_less_iff ceiling_le_iff)
  moreover have "0 \<le> x \<Longrightarrow> 0 \<le> \<lfloor>x\<rfloor>" by simp
  moreover have "- 1 < \<lceil>x\<rceil>" using x(2) by (simp add: less_ceiling_iff)
  moreover have "x < 0 \<Longrightarrow> \<lceil>x\<rceil> \<le> 0" by (simp add: ceiling_le_iff)
  ultimately have "\<bar>trunc x\<bar> \<le> 65535" by (auto simp add: trunc_def)
  with x(4) show ?thesis by blast
qed

lemma vsub_double:
  assumes "st = Float Double \<or> (st = U8 \<or> st = U16)
             \<and> (\<exists>i. a = Fin (of_int i) \<and> \<bar>i\<bar> \<le> 65535) \<and> (\<exists>j. b = Fin (of_int j) \<and> \<bar>j\<bar> \<le> 65535)"
  shows "vsub st a b = dsub a b"
  using assms dsub_int by (auto simp add: vsub_def)

section \<open>The delta offset\<close>

text \<open>
  C1. The delta offset is half of the opaque maximum of the channel type: 0.5 for
  floating-point storage, and, by the integer division, 127 for 8-bit and 32767 for
  16-bit storage (the source's comment and the specification say 128 and 32768).
  With 8-bit storage \<^verbatim>\<open>RgbToYCrCb\<close> maps the gray pixel (128, 128, 128) to
  (127, 127, 127): the luminance sum is just below 128 in \<^verbatim>\<open>double\<close> and is
  truncated, and delta is 127.
\<close>

theorem RgbToYCrCb_gray_8bit:
  "delta U8 = Fin 127 \<and> delta U16 = Fin 32767
   \<and> delta (Float Single) = Fin (1 / 2) \<and> delta (Float Double) = Fin (1 / 2)
   \<and> RgbToYCrCb U8 (Fin 128, Fin 128, Fin 128) = Inr (Fin 127, Fin 127, Fin 127)"
  by code_simp

section \<open>YCrCb to RGB\<close>

text \<open>
  C2. For every input pixel \<^verbatim>\<open>YCrCbToRgb\<close> computes \<open>R = Y + 1.403 (Cr - delta)\<close>,
  \<open>G = Y - 0.714 (Cr - delta) - 0.344 (Cb - delta)\<close> and \<open>B = Y + 1.773 (Cb - delta)\<close>
  and narrows each: 0.714 is attached to the \<open>Cr\<close> term and 0.344 to the \<open>Cb\<close> term.
  This is not the swapped attachment, which gives another pixel.
\<close>

theorem YCrCbToRgb_as_implemented:
  "YCrCbToRgb st from = narrow_once Double st (ycc_reverse_formula 1.403 0.714 0.344 1.773 st from)
   \<and> YCrCbToRgb U8 (Fin 100, Fin 137, Fin 147) = Inr (Fin 114, Fin 85, Fin 135)
   \<and> narrow_once Double U8 (ycc_reverse_formula 1.403 0.344 0.714 1.773 U8 (Fin 100, Fin 137, Fin 147))
       = Inr (Fin 114, Fin 82, Fin 135)"
proof -
  have "YCrCbToRgb st from
      = narrow_once Double st (ycc_reverse_formula 1.403 0.714 0.344 1.773 st from)"
    by (cases "from") (simp add: YCrCbToRgb_def ycc_reverse_formula_def narrow_once_def Let_def)
  moreover have "YCrCbToRgb U8 (Fin 100, Fin 137, Fin 147) = Inr (Fin 114, Fin 85, Fin 135)"
    by code_simp
  moreover have
    "narrow_once Double U8 (ycc_reverse_formula 1.403 0.344 0.714 1.773 U8 (Fin 100, Fin 137, Fin 147))
      = Inr (Fin 114, Fin 82, Fin 135)"
    by code_simp
  ultimately show ?thesis by simp
qed

section \<open>The reverse converters without an algorithm\<close>

text \<open>
  C3. For every input pixel, each of \<^verbatim>\<open>HsvToRgb\<close>, \<^verbatim>\<open>HslToRgb\<close>, \<^verbatim>\<open>LabToRgb\<close> and
  \<^verbatim>\<open>LuvToRgb\<close> fails its assertion \<^verbatim>\<open>assert(0)\<close> (assertions are compiled in): it
  returns no pixel, and, being a function of its argument alone, changes nothing of
  the caller.
\<close>

theorem reverse_converters_trap:
  "HsvToRgb st from = Inl Assertion_failed \<and> HslToRgb st from = Inl Assertion_failed
   \<and> LabToRgb st from = Inl Assertion_failed \<and> LuvToRgb st from = Inl Assertion_failed"
  by (simp add: HsvToRgb_def HslToRgb_def LabToRgb_def LuvToRgb_def)

section \<open>RGB to luminance\<close>

text \<open>
  C7, as stated, fails for floating-point storage: on pure red (255, 0, 0)
  \<^verbatim>\<open>RgbToGray\<close> returns \<open>76.245\<close>, the sum as the channel type holds it, and not \<open>76\<close>.
  The cast to a floating-point channel type does not truncate.
\<close>

theorem RgbToGray_float_not_truncated:
  "RgbToGray (Float Double) (Fin 255, Fin 0, Fin 0) = Inr (Fin (5365264899825991 / 70368744177664))
   \<and> RgbToGray (Float Single) (Fin 255, Fin 0, Fin 0) = Inr (Fin (9993585 / 131072))
   \<and> RgbToGray (Float Double) (Fin 255, Fin 0, Fin 0) \<noteq> Inr (Fin 76)
   \<and> RgbToGray (Float Single) (Fin 255, Fin 0, Fin 0) \<noteq> Inr (Fin 76)"
  by code_simp

text \<open>
  C7, amended. \<^verbatim>\<open>RgbToGray\<close> returns \<open>Y = 0.299 R + 0.587 G + 0.114 B\<close>, computed in
  \<^verbatim>\<open>double\<close>, cast to the channel type. For every pixel of 8-bit or 16-bit storage
  the sum is finite, not negative and in the range of the type, and the result is the
  sum truncated: 76 on pure red (255, 0, 0). For every pixel of floating-point storage
  the result is not truncated: it is the sum itself in \<^verbatim>\<open>double\<close> storage and the sum
  rounded to the nearest \<^verbatim>\<open>float\<close> in \<^verbatim>\<open>float\<close> storage (an infinity or NaN is kept).
\<close>

theorem RgbToGray_truncates:
  "(is_channel st R \<and> is_channel st G \<and> is_channel st B \<and> (st = U8 \<or> st = U16) \<longrightarrow>
      (\<exists>y. luminance R G B = Fin y \<and> 0 \<le> y
         \<and> RgbToGray st (R, G, B) = Inr (Fin (of_int \<lfloor>y\<rfloor>))))
   \<and> RgbToGray (Float Double) (R, G, B) = Inr (luminance R G B)
   \<and> RgbToGray (Float Single) (R, G, B)
       = Inr (case luminance R G B of Fin y \<Rightarrow> fround Single y | PInf \<Rightarrow> PInf | NInf \<Rightarrow> NInf | NaN \<Rightarrow> NaN)"
proof -
  have i: "\<exists>y. luminance R G B = Fin y \<and> 0 \<le> y
         \<and> RgbToGray st (R, G, B) = Inr (Fin (of_int \<lfloor>y\<rfloor>))"
    if a: "is_channel st R" "is_channel st G" "is_channel st B" "st = U8 \<or> st = U16"
  proof -
    define w :: nat where "w = (if st = U8 then 8 else 16)"
    have n: "narrow Double st a = to_unsigned w a" for a
      using a(4) by (auto simp add: narrow_def w_def)
    have "\<exists>x. c = Fin x \<and> 0 \<le> x \<and> x \<le> 2 ^ w - 1" if "is_channel st c" for c
      using that a(4) by (auto simp add: is_channel_def w_def)
    with a obtain r g b where
      c: "R = Fin r" "0 \<le> r" "r \<le> 2 ^ w - 1" "G = Fin g" "0 \<le> g" "g \<le> 2 ^ w - 1"
        "B = Fin b" "0 \<le> b" "b \<le> 2 ^ w - 1"
      by blast
    have w: "(2::rat) ^ w - 1 \<le> 65535" by (simp add: w_def)
    from luminance_bounds [OF c(2,3,5,6,8,9) w] obtain y where
      y: "luminance R G B = Fin y" "0 \<le> y" "y < 2 ^ w" unfolding c by auto
    have "RgbToGray st (R, G, B) = Inr (Fin (of_int \<lfloor>y\<rfloor>))"
      using to_unsigned_floor [OF y(2,3)] by (simp add: RgbToGray_luminance n y(1))
    then show ?thesis using y by blast
  qed
  have d: "RgbToGray (Float Double) (R, G, B) = Inr (luminance R G B)"
    by (simp add: RgbToGray_luminance narrow_def fconv_def)
  have s: "RgbToGray (Float Single) (R, G, B)
       = Inr (case luminance R G B of Fin y \<Rightarrow> fround Single y | PInf \<Rightarrow> PInf | NInf \<Rightarrow> NInf | NaN \<Rightarrow> NaN)"
    by (simp add: RgbToGray_luminance narrow_def fconv_def split: fp.splits)
  show ?thesis using i d s by blast
qed

theorem RgbToGray_truncates_witness:
  "is_channel U8 (Fin 255) \<and> is_channel U8 (Fin 0)
   \<and> luminance (Fin 255) (Fin 0) (Fin 0) = Fin (5365264899825991 / 70368744177664)
   \<and> \<lfloor>5365264899825991 / 70368744177664 :: rat\<rfloor> = 76
   \<and> RgbToGray U8 (Fin 255, Fin 0, Fin 0) = Inr (Fin 76)
   \<and> RgbToGray U16 (Fin 255, Fin 0, Fin 0) = Inr (Fin 76)
   \<and> RgbToGray (Float Double) (Fin (1 / 2), Fin (1 / 4), Fin 1)
       = Inr (Fin (923800873564373 / 2251799813685248))
   \<and> RgbToGray (Float Single) (Fin (1 / 2), Fin (1 / 4), Fin 1) = Inr (Fin (6882853 / 16777216))"
proof -
  have c: "is_channel U8 (Fin 255)" "is_channel U8 (Fin 0)"
    by (simp_all add: is_channel_def image_iff Bex_def)
  have l: "luminance (Fin 255) (Fin 0) (Fin 0) = Fin (5365264899825991 / 70368744177664)"
    by code_simp
  have f: "\<lfloor>5365264899825991 / 70368744177664 :: rat\<rfloor> = 76"
    by code_simp
  from RgbToGray_truncates [of U8 "Fin 255" "Fin 0" "Fin 0"] c obtain y where
    y: "luminance (Fin 255) (Fin 0) (Fin 0) = Fin y"
      "RgbToGray U8 (Fin 255, Fin 0, Fin 0) = Inr (Fin (of_int \<lfloor>y\<rfloor>))"
    by auto
  from y(1) [symmetric] l have "Fin y = Fin (5365264899825991 / 70368744177664)" by (rule trans)
  then have "y = 5365264899825991 / 70368744177664" by (simp only: fp.inject)
  then have "\<lfloor>y\<rfloor> = 76" by (simp only: f)
  with y(2) have "RgbToGray U8 (Fin 255, Fin 0, Fin 0) = Inr (Fin 76)" by simp
  moreover have "RgbToGray U16 (Fin 255, Fin 0, Fin 0) = Inr (Fin 76)"
    by code_simp
  moreover have "RgbToGray (Float Double) (Fin (1 / 2), Fin (1 / 4), Fin 1)
       = Inr (Fin (923800873564373 / 2251799813685248))"
    by code_simp
  moreover have "RgbToGray (Float Single) (Fin (1 / 2), Fin (1 / 4), Fin 1)
       = Inr (Fin (6882853 / 16777216))"
    by code_simp
  ultimately show ?thesis using c l f by simp
qed

section \<open>Zero denominators\<close>

text \<open>
  C4. With floating-point storage \<^verbatim>\<open>RgbToHsv\<close> maps pure red (1, 0, 0) to
  \<open>(H, S, V) = (0, 1, 1)\<close> and pure green (0, 1, 0) to \<open>(120, 1, 1)\<close>. On the inputs where
  a formula divides zero by zero the result holds NaN: \<^verbatim>\<open>RgbToHsv\<close> on black
  (0, 0, 0) returns \<open>H = NaN\<close>, \<^verbatim>\<open>RgbToHsl\<close> on white (1, 1, 1) returns \<open>H = S = NaN\<close>, and
  \<^verbatim>\<open>RgbToLuv\<close> on black returns \<open>u = v = NaN\<close>.
\<close>

theorem zero_denominators:
  "RgbToHsv xt (DefaultConverter xt (Float p)) (Float p) (Fin 1, Fin 0, Fin 0) = Inr (Fin 0, Fin 1, Fin 1)
   \<and> RgbToHsv xt (DefaultConverter xt (Float p)) (Float p) (Fin 0, Fin 1, Fin 0) = Inr (Fin 120, Fin 1, Fin 1)
   \<and> RgbToHsv xt (DefaultConverter xt (Float p)) (Float p) (Fin 0, Fin 0, Fin 0) = Inr (NaN, Fin 0, Fin 0)
   \<and> RgbToHsl xt (DefaultConverter xt (Float p)) (Float p) (Fin 1, Fin 1, Fin 1) = Inr (NaN, NaN, Fin 1)
   \<and> RgbToLuv xt (DefaultConverter xt (Float p)) pw (Float p) (Fin 0, Fin 0, Fin 0) = Inr (Fin 0, NaN, NaN)"
  by (cases xt; cases p; hypsubst; code_simp)

section \<open>HSV and HSL are narrowed without rescaling\<close>

text \<open>
  C5. \<^verbatim>\<open>RgbToHsv\<close> and \<^verbatim>\<open>RgbToHsl\<close> narrow the raw hue, saturation and value (or
  lightness) directly to the channel type, for every storage class: nothing is
  multiplied by 255 and the hue is not halved. When the channel type is the
  floating type the raw values are computed in, the result is the raw triple; pure
  blue in single-precision storage gives \<open>(240, 1, 1)\<close>, and a raw triple
  \<open>(240, 0.5, 1)\<close> is stored in 8 bits as \<open>(240, 0, 1)\<close>.
\<close>

theorem hsv_hsl_unscaled:
  "RgbToHsv xt dc st from = narrow_once xt st (hsv_raw xt (dc from))
   \<and> RgbToHsl xt dc st from = narrow_once xt st (hsl_raw xt (dc from))
   \<and> RgbToHsv xt dc (Float xt) from = Inr (hsv_raw xt (dc from))
   \<and> RgbToHsl xt dc (Float xt) from = Inr (hsl_raw xt (dc from))
   \<and> RgbToHsv Double (DefaultConverter Double (Float Single)) (Float Single) (Fin 0, Fin 0, Fin 1)
       = Inr (Fin 240, Fin 1, Fin 1)
   \<and> narrow_once Double U8 (Fin 240, Fin (1 / 2), Fin 1) = Inr (Fin 240, Fin 0, Fin 1)"
proof -
  have v: "RgbToHsv xt dc s from = narrow_once xt s (hsv_raw xt (dc from))" for s
    by (cases "dc from") (simp add: RgbToHsv_def narrow_once_def hsv_raw_def hue_def Let_def)
  have l: "RgbToHsl xt dc s from = narrow_once xt s (hsl_raw xt (dc from))" for s
    by (cases "dc from") (simp add: RgbToHsl_def narrow_once_def hsl_raw_def hue_def Let_def)
  have n: "narrow_once xt (Float xt) q = Inr q" for q
    by (cases q) (simp add: narrow_once_def narrow_same color_def)
  have b: "RgbToHsv Double (DefaultConverter Double (Float Single)) (Float Single)
      (Fin 0, Fin 0, Fin 1) = Inr (Fin 240, Fin 1, Fin 1)"
    by code_simp
  have c: "narrow_once Double U8 (Fin 240, Fin (1 / 2), Fin 1) = Inr (Fin 240, Fin 0, Fin 1)"
    by code_simp
  show ?thesis using v l n b c by simp
qed

section \<open>Lightness in Luv\<close>

text \<open>
  C6. \<^verbatim>\<open>RgbToLab::operator()\<close> is ill-formed (it assigns through references to
  \<^verbatim>\<open>const\<close>), so the program has no Lab lightness. For \<^verbatim>\<open>RgbToLuv\<close>, let \<open>Y\<close> be the
  second channel of the XYZ intermediate: when the converter returns a pixel, its \<open>L\<close>
  is the narrowed \<open>116 Y\<^sup>e - 16\<close> for \<open>Y > 0.008856\<close>, with the offset, and the narrowed
  \<open>903.3 Y\<close> otherwise. The exponent \<open>e\<close> is \<^verbatim>\<open>1./3\<close> as the extended type holds it: the
  \<^verbatim>\<open>double\<close> or the \<^verbatim>\<open>float\<close> nearest to one third.
\<close>

theorem lightness_offset:
  assumes "RgbToXyz (Float xt) (dc from) = Inr (X, Y, Z)"
    and "RgbToLuv xt dc pw st from = Inr (L, u, v)"
  shows "(flt (lit 0.008856) Y \<longrightarrow>
            narrow xt st (fsub xt (fmul xt (Fin 116) (pw Y (third xt))) (Fin 16)) = Inr L)
       \<and> (\<not> flt (lit 0.008856) Y \<longrightarrow>
            narrow xt st (fconv Double xt (dmul (lit 903.3) Y)) = Inr L)
       \<and> third Double = Fin (6004799503160661 / 18014398509481984)
       \<and> third Single = Fin (11184811 / 33554432)
       \<and> (\<exists>t. third xt = Fin t \<and> \<bar>t - 1 / 3\<bar> \<le> 1 / 100000000)"
proof -
  have l: "(flt (lit 0.008856) Y \<longrightarrow>
            narrow xt st (fsub xt (fmul xt (Fin 116) (pw Y (third xt))) (Fin 16)) = Inr L)
       \<and> (\<not> flt (lit 0.008856) Y \<longrightarrow>
            narrow xt st (fconv Double xt (dmul (lit 903.3) Y)) = Inr L)"
    using assms by (auto simp add: RgbToLuv_def Let_def color_def split: sum.splits)
  have d: "third Double = Fin (6004799503160661 / 18014398509481984)" by code_simp
  have s: "third Single = Fin (11184811 / 33554432)" by code_simp
  have "\<bar>6004799503160661 / 18014398509481984 - 1 / 3 :: rat\<bar> \<le> 1 / 100000000"
    and "\<bar>11184811 / 33554432 - 1 / 3 :: rat\<bar> \<le> 1 / 100000000"
    by simp_all
  with d s have "\<exists>t. third xt = Fin t \<and> \<bar>t - 1 / 3\<bar> \<le> 1 / 100000000"
    by (cases xt) blast+
  with l d s show ?thesis by blast
qed

theorem lightness_offset_witness:
  "RgbToXyz (Float Double) (DefaultConverter Double (Float Double) (Fin 1, Fin 1, Fin 1))
     = Inr (Fin (1070118321858013 / 1125899906842624), Fin 1,
            Fin (4903312108698137 / 4503599627370496))
   \<and> flt (lit 0.008856) (Fin 1)
   \<and> RgbToLuv Double (DefaultConverter Double (Float Double)) (\<lambda>x y. if x = Fin 1 then Fin 1 else NaN)
        (Float Double) (Fin 1, Fin 1, Fin 1)
     = Inr (Fin 100, Fin (- (292815563908075 / 2251799813685248)),
            Fin (45726197161125 / 1125899906842624))
   \<and> narrow Double (Float Double) (fsub Double (fmul Double (Fin 116) (Fin 1)) (Fin 16)) = Inr (Fin 100)
   \<and> RgbToXyz (Float Single)
        (DefaultConverter Single (Float Single) (Fin (1 / 128), Fin (1 / 128), Fin (1 / 128)))
     = Inr (Fin (7973003 / 1073741824), Fin (1 / 128), Fin (9133131 / 1073741824))
   \<and> flt (lit 0.008856) (Fin (1 / 128)) = False
   \<and> RgbToLuv Single (DefaultConverter Single (Float Single)) (\<lambda>x y. NaN) (Float Single)
        (Fin (1 / 128), Fin (1 / 128), Fin (1 / 128))
     = Inr (Fin (14799667 / 2097152), Fin (- (9850825 / 1073741824)), Fin (3082511 / 1073741824))
   \<and> narrow Single (Float Single) (fconv Double Single (dmul (lit 903.3) (Fin (1 / 128))))
     = Inr (Fin (14799667 / 2097152))
   \<and> flt (lit 0.008856) (Fin (1 / 112)) \<and> flt (lit 0.008856) (Fin (1 / 113)) = False"
proof -
  let ?dc = "DefaultConverter Double (Float Double)"
  let ?pw = "\<lambda>x y :: fp. if x = Fin 1 then Fin 1 else NaN"
  let ?ds = "DefaultConverter Single (Float Single)"
  let ?pn = "\<lambda>x y :: fp. NaN"
  let ?g = "(Fin (1 / 128), Fin (1 / 128), Fin (1 / 128))"
  have x: "RgbToXyz (Float Double) (?dc (Fin 1, Fin 1, Fin 1))
      = Inr (Fin (1070118321858013 / 1125899906842624), Fin 1,
             Fin (4903312108698137 / 4503599627370496))"
    by code_simp
  have u: "RgbToLuv Double ?dc ?pw (Float Double) (Fin 1, Fin 1, Fin 1)
      = Inr (Fin 100, Fin (- (292815563908075 / 2251799813685248)),
             Fin (45726197161125 / 1125899906842624))"
    by code_simp
  have b: "flt (lit 0.008856) (Fin 1)"
    by code_simp
  have x': "RgbToXyz (Float Single) (?ds ?g)
      = Inr (Fin (7973003 / 1073741824), Fin (1 / 128), Fin (9133131 / 1073741824))"
    by code_simp
  have u': "RgbToLuv Single ?ds ?pn (Float Single) ?g
      = Inr (Fin (14799667 / 2097152), Fin (- (9850825 / 1073741824)), Fin (3082511 / 1073741824))"
    by code_simp
  have b': "flt (lit 0.008856) (Fin (1 / 128)) = False"
    by code_simp
  have t: "flt (lit 0.008856) (Fin (1 / 112))" "flt (lit 0.008856) (Fin (1 / 113)) = False"
    by code_simp+
  from lightness_offset [OF x u] b
  have 1: "narrow Double (Float Double) (fsub Double (fmul Double (Fin 116) (Fin 1)) (Fin 16))
      = Inr (Fin 100)"
    by simp
  from lightness_offset [OF x' u'] b'
  have 2: "narrow Single (Float Single) (fconv Double Single (dmul (lit 903.3) (Fin (1 / 128))))
      = Inr (Fin (14799667 / 2097152))"
    by simp
  show ?thesis using x u b x' u' b' t 1 2 by simp
qed

section \<open>Where the converters narrow\<close>

text \<open>
  C9, as stated, fails twice. \<^verbatim>\<open>RgbToYCrCb\<close> narrows \<open>Y\<close> before it uses it: on the 8-bit
  pixel (0, 0, 1) it returns \<open>Cr = 127\<close>, and the reference that narrows each channel
  once returns \<open>Cr = 126\<close>, because the converter truncates \<open>Y = 0.114\<close> to \<open>0\<close> first.
  \<^verbatim>\<open>YCrCbToRgb\<close> subtracts delta in the channel type: on the \<^verbatim>\<open>float\<close> pixel
  \<open>(0.5, 0.5, 2\<^sup>-\<^sup>2\<^sup>6)\<close> the difference \<open>Cb - 0.5\<close> is rounded to \<open>-0.5\<close>, and the blue
  channel differs from that of the reference computed wholly in \<^verbatim>\<open>double\<close>.
\<close>

theorem YCrCb_not_narrowed_once:
  "RgbToYCrCb U8 (Fin 0, Fin 0, Fin 1) = Inr (Fin 0, Fin 127, Fin 127)
   \<and> RgbToYCrCb_reference U8 (Fin 0, Fin 0, Fin 1) = Inr (Fin 0, Fin 126, Fin 127)
   \<and> YCrCbToRgb (Float Single) (Fin (1 / 2), Fin (1 / 2), Fin (1 / 67108864))
       = Inr (Fin (1 / 2), Fin (11274289 / 16777216), Fin (- (3242197 / 8388608)))
   \<and> YCrCbToRgb_reference (Float Single) (Fin (1 / 2), Fin (1 / 2), Fin (1 / 67108864))
       = Inr (Fin (1 / 2), Fin (11274289 / 16777216), Fin (- (12968787 / 33554432)))"
  by code_simp

text \<open>
  C9, amended. \<^verbatim>\<open>RgbToGray\<close>, \<^verbatim>\<open>RgbToXyz\<close> and \<^verbatim>\<open>XyzToRgb\<close> compute their formula in
  \<^verbatim>\<open>double\<close>, \<^verbatim>\<open>RgbToHsv\<close> and \<^verbatim>\<open>RgbToHsl\<close> in the extended type on the widened pixel, and
  \<^verbatim>\<open>RgbToLuv\<close> in the extended type on the XYZ intermediate, which, like the product
  \<open>903.3 Y\<close>, is computed in \<^verbatim>\<open>double\<close> and held in the extended type; each narrows every
  result channel once, at the end. \<^verbatim>\<open>YCrCbToRgb\<close> computes \<open>Cr - delta\<close> and
  \<open>Cb - delta\<close> in the channel type and the rest in \<^verbatim>\<open>double\<close>, and narrows once; for
  8-bit, 16-bit and \<^verbatim>\<open>double\<close> storage it equals the reference computed wholly in
  \<^verbatim>\<open>double\<close>. \<^verbatim>\<open>RgbToYCrCb\<close> narrows \<open>Y\<close> first, computes \<open>R - Y\<close> and \<open>B - Y\<close> from the
  narrowed \<open>Y\<close> in the channel type (for 8-bit, 16-bit and \<^verbatim>\<open>double\<close> storage the same
  as in \<^verbatim>\<open>double\<close>) and the rest in \<^verbatim>\<open>double\<close>, and narrows \<open>Cr\<close> and \<open>Cb\<close> once.
\<close>

theorem narrowing_points:
  "RgbToGray st (c0, c1, c2) = narrow Double st (luminance c0 c1 c2)
   \<and> RgbToXyz st q = narrow_once Double st (xyz_formula q)
   \<and> XyzToRgb st q = narrow_once Double st (rgb_formula q)
   \<and> RgbToHsv xt dc st q = narrow_once xt st (hsv_raw xt (dc q))
   \<and> RgbToHsl xt dc st q = narrow_once xt st (hsl_raw xt (dc q))
   \<and> RgbToLuv xt dc pw st q = narrow_once xt st (luv_raw xt pw (dc q))
   \<and> YCrCbToRgb st q = narrow_once Double st (ycc_reverse_formula 1.403 0.714 0.344 1.773 st q)
   \<and> (st = Float Double
        \<or> (st = U8 \<or> st = U16) \<and> is_channel st c0 \<and> is_channel st c1 \<and> is_channel st c2 \<longrightarrow>
      YCrCbToRgb st (c0, c1, c2) = YCrCbToRgb_reference st (c0, c1, c2))
   \<and> RgbToYCrCb st (c0, c1, c2) =
       (case narrow Double st (luminance c0 c1 c2) of
          Inl e \<Rightarrow> Inl e
        | Inr Y \<Rightarrow> color (Inr Y) (narrow Double st (chroma st c0 Y 0.713))
                     (narrow Double st (chroma st c2 Y 0.564)))
   \<and> (st = Float Double
        \<or> (st = U8 \<or> st = U16) \<and> is_channel st c0 \<and> is_channel st c1 \<and> is_channel st c2 \<longrightarrow>
      RgbToYCrCb st (c0, c1, c2) =
       (case narrow Double st (luminance c0 c1 c2) of
          Inl e \<Rightarrow> Inl e
        | Inr Y \<Rightarrow> color (Inr Y) (narrow Double st (chroma_double st c0 Y 0.713))
                     (narrow Double st (chroma_double st c2 Y 0.564))))"
proof -
  let ?h = "st = Float Double
        \<or> (st = U8 \<or> st = U16) \<and> is_channel st c0 \<and> is_channel st c1 \<and> is_channel st c2"
  have g: "RgbToGray st (c0, c1, c2) = narrow Double st (luminance c0 c1 c2)"
    by (rule RgbToGray_luminance)
  have x: "RgbToXyz st q = narrow_once Double st (xyz_formula q)"
    by (cases q) (simp add: RgbToXyz_def narrow_once_def xyz_formula_def)
  have r: "XyzToRgb st q = narrow_once Double st (rgb_formula q)"
    by (cases q) (simp add: XyzToRgb_def narrow_once_def rgb_formula_def)
  have v: "RgbToHsv xt dc st q = narrow_once xt st (hsv_raw xt (dc q))"
    by (cases "dc q") (simp add: RgbToHsv_def narrow_once_def hsv_raw_def hue_def Let_def)
  have l: "RgbToHsl xt dc st q = narrow_once xt st (hsl_raw xt (dc q))"
    by (cases "dc q") (simp add: RgbToHsl_def narrow_once_def hsl_raw_def hue_def Let_def)
  have u: "RgbToLuv xt dc pw st q = narrow_once xt st (luv_raw xt pw (dc q))"
    by (cases "xyz_ext xt (dc q)")
      (simp add: RgbToLuv_def RgbToXyz_ext narrow_once_def luv_raw_def lightness_def Let_def)
  have i: "YCrCbToRgb st q
      = narrow_once Double st (ycc_reverse_formula 1.403 0.714 0.344 1.773 st q)"
    by (cases q) (simp add: YCrCbToRgb_def ycc_reverse_formula_def narrow_once_def Let_def)
  have i': "YCrCbToRgb st (c0, c1, c2) = YCrCbToRgb_reference st (c0, c1, c2)" if h: ?h
  proof -
    have "vsub st c1 (delta st) = dsub c1 (delta st)"
      using h channel_int [of st c1] delta_int [of st] by (intro vsub_double) blast
    moreover have "vsub st c2 (delta st) = dsub c2 (delta st)"
      using h channel_int [of st c2] delta_int [of st] by (intro vsub_double) blast
    ultimately show ?thesis
      by (simp add: YCrCbToRgb_def YCrCbToRgb_reference_def narrow_once_def Let_def)
  qed
  have y: "RgbToYCrCb st (c0, c1, c2) =
       (case narrow Double st (luminance c0 c1 c2) of
          Inl e \<Rightarrow> Inl e
        | Inr Y \<Rightarrow> color (Inr Y) (narrow Double st (chroma st c0 Y 0.713))
                     (narrow Double st (chroma st c2 Y 0.564)))"
    by (simp add: RgbToYCrCb_def g chroma_def split: sum.splits)
  have y': "RgbToYCrCb st (c0, c1, c2) =
       (case narrow Double st (luminance c0 c1 c2) of
          Inl e \<Rightarrow> Inl e
        | Inr Y \<Rightarrow> color (Inr Y) (narrow Double st (chroma_double st c0 Y 0.713))
                     (narrow Double st (chroma_double st c2 Y 0.564)))" if h: ?h
  proof (cases "narrow Double st (luminance c0 c1 c2)")
    case (Inl e)
    then show ?thesis by (simp add: y)
  next
    case (Inr Y)
    have "vsub st c0 Y = dsub c0 Y"
      using h channel_int [of st c0] narrow_int [of st Double "luminance c0 c1 c2" Y] Inr
      by (intro vsub_double) blast
    moreover have "vsub st c2 Y = dsub c2 Y"
      using h channel_int [of st c2] narrow_int [of st Double "luminance c0 c1 c2" Y] Inr
      by (intro vsub_double) blast
    ultimately show ?thesis by (simp add: y Inr chroma_def chroma_double_def)
  qed
  show ?thesis using g x r v l u i i' y y' by blast
qed

theorem narrowing_points_witness:
  "is_channel U8 (Fin 100) \<and> is_channel U8 (Fin 137) \<and> is_channel U8 (Fin 147)
   \<and> YCrCbToRgb_reference U8 (Fin 100, Fin 137, Fin 147) = Inr (Fin 114, Fin 85, Fin 135)
   \<and> YCrCbToRgb U8 (Fin 100, Fin 137, Fin 147) = Inr (Fin 114, Fin 85, Fin 135)
   \<and> narrow Double U8 (luminance (Fin 100) (Fin 137) (Fin 147)) = Inr (Fin 127)
   \<and> narrow Double U8 (chroma_double U8 (Fin 100) (Fin 127) 0.713) = Inr (Fin 107)
   \<and> narrow Double U8 (chroma_double U8 (Fin 147) (Fin 127) 0.564) = Inr (Fin 138)
   \<and> RgbToYCrCb U8 (Fin 100, Fin 137, Fin 147) = Inr (Fin 127, Fin 107, Fin 138)"
proof -
  have c: "is_channel U8 (Fin 100)" "is_channel U8 (Fin 137)" "is_channel U8 (Fin 147)"
    by (simp_all add: is_channel_def image_iff Bex_def)
  have r: "YCrCbToRgb_reference U8 (Fin 100, Fin 137, Fin 147) = Inr (Fin 114, Fin 85, Fin 135)"
    by code_simp
  have n: "narrow Double U8 (luminance (Fin 100) (Fin 137) (Fin 147)) = Inr (Fin 127)"
    "narrow Double U8 (chroma_double U8 (Fin 100) (Fin 127) 0.713) = Inr (Fin 107)"
    "narrow Double U8 (chroma_double U8 (Fin 147) (Fin 127) 0.564) = Inr (Fin 138)"
    by code_simp+
  note t = narrowing_points [where st = U8 and ?c0.0 = "Fin 100" and ?c1.0 = "Fin 137"
      and ?c2.0 = "Fin 147" and q = "(Fin 0, Fin 0, Fin 0)" and xt = Double
      and dc = "\<lambda>q. q" and pw = "\<lambda>x y. NaN"]
  from t c have "YCrCbToRgb U8 (Fin 100, Fin 137, Fin 147)
      = YCrCbToRgb_reference U8 (Fin 100, Fin 137, Fin 147)"
    by blast
  then have 1: "YCrCbToRgb U8 (Fin 100, Fin 137, Fin 147) = Inr (Fin 114, Fin 85, Fin 135)"
    by (simp only: r)
  from t c have "RgbToYCrCb U8 (Fin 100, Fin 137, Fin 147) =
       (case narrow Double U8 (luminance (Fin 100) (Fin 137) (Fin 147)) of
          Inl e \<Rightarrow> Inl e
        | Inr Y \<Rightarrow> color (Inr Y) (narrow Double U8 (chroma_double U8 (Fin 100) Y 0.713))
                     (narrow Double U8 (chroma_double U8 (Fin 147) Y 0.564)))"
    by blast
  then have 2: "RgbToYCrCb U8 (Fin 100, Fin 137, Fin 147) = Inr (Fin 127, Fin 107, Fin 138)"
    by (simp only: n sum.case color_def)
  show ?thesis using c r n 1 2 by simp
qed

section \<open>The XYZ round trip\<close>

text \<open>
  C8. For every RGB pixel with channels in \<open>[0, 1]\<close> and floating-point storage, single
  or double, \<^verbatim>\<open>RgbToXyz\<close> followed by \<^verbatim>\<open>XyzToRgb\<close> returns a pixel, and each of its
  channels differs from the original by at most \<open>10\<^sup>-\<^sup>5\<close>: the product of the two
  matrices is the identity up to \<open>10\<^sup>-\<^sup>6\<close> in each entry, and the roundings add less
  than \<open>10\<^sup>-\<^sup>6\<close>.
\<close>

theorem xyz_round_trip:
  assumes "0 \<le> r" "r \<le> 1" "0 \<le> g" "g \<le> 1" "0 \<le> b" "b \<le> 1"
  shows "\<exists>X Y Z r' g' b'.
           RgbToXyz (Float p) (Fin r, Fin g, Fin b) = Inr (Fin X, Fin Y, Fin Z)
         \<and> XyzToRgb (Float p) (Fin X, Fin Y, Fin Z) = Inr (Fin r', Fin g', Fin b')
         \<and> \<bar>r' - r\<bar> \<le> 1 / 100000 \<and> \<bar>g' - g\<bar> \<le> 1 / 100000 \<and> \<bar>b' - b\<bar> \<le> 1 / 100000"
proof -
  from RgbToXyz_error [OF assms, of p] obtain X Y Z where
    f: "RgbToXyz (Float p) (Fin r, Fin g, Fin b) = Inr (Fin X, Fin Y, Fin Z)"
    and X: "\<bar>X - (412453 / 1000000 * r + 357580 / 1000000 * g + 180423 / 1000000 * b)\<bar> \<le> 7 / 100000000"
    and Y: "\<bar>Y - (212671 / 1000000 * r + 715160 / 1000000 * g + 72169 / 1000000 * b)\<bar> \<le> 7 / 100000000"
    and Z: "\<bar>Z - (19334 / 1000000 * r + 119193 / 1000000 * g + 950227 / 1000000 * b)\<bar> \<le> 7 / 100000000"
    by blast
  define eX where "eX = X - (412453 / 1000000 * r + 357580 / 1000000 * g + 180423 / 1000000 * b)"
  define eY where "eY = Y - (212671 / 1000000 * r + 715160 / 1000000 * g + 72169 / 1000000 * b)"
  define eZ where "eZ = Z - (19334 / 1000000 * r + 119193 / 1000000 * g + 950227 / 1000000 * b)"
  have e: "- (7 / 100000000) \<le> eX" "eX \<le> 7 / 100000000" "- (7 / 100000000) \<le> eY" "eY \<le> 7 / 100000000"
    "- (7 / 100000000) \<le> eZ" "eZ \<le> 7 / 100000000"
  proof -
    have "\<bar>eX\<bar> \<le> 7 / 100000000" unfolding eX_def by (rule X)
    then show "- (7 / 100000000) \<le> eX" "eX \<le> 7 / 100000000" by linarith+
    have "\<bar>eY\<bar> \<le> 7 / 100000000" unfolding eY_def by (rule Y)
    then show "- (7 / 100000000) \<le> eY" "eY \<le> 7 / 100000000" by linarith+
    have "\<bar>eZ\<bar> \<le> 7 / 100000000" unfolding eZ_def by (rule Z)
    then show "- (7 / 100000000) \<le> eZ" "eZ \<le> 7 / 100000000" by linarith+
  qed
  have XYZ: "X = 412453 / 1000000 * r + 357580 / 1000000 * g + 180423 / 1000000 * b + eX"
    "Y = 212671 / 1000000 * r + 715160 / 1000000 * g + 72169 / 1000000 * b + eY"
    "Z = 19334 / 1000000 * r + 119193 / 1000000 * g + 950227 / 1000000 * b + eZ"
    by (simp_all add: eX_def eY_def eZ_def)
  have x: "\<bar>X\<bar> \<le> 2" "\<bar>Y\<bar> \<le> 2" "\<bar>Z\<bar> \<le> 2"
    using assms e unfolding XYZ by linarith+
  define vR where "vR = 3240479 / 1000000 * X + - (153715 / 100000) * Y + - (498535 / 1000000) * Z"
  define vG where "vG = - (969256 / 1000000) * X + 1875991 / 1000000 * Y + 41556 / 1000000 * Z"
  define vB where "vB = 55648 / 1000000 * X + - (204043 / 1000000) * Y + 1057311 / 1000000 * Z"
  have R: "vR = r + (- (618353 / 1000000000000) * r + 404565 / 1000000000000 * g + 946822 / 1000000000000 * b)
      + (3240479 / 1000000 * eX - 153715 / 100000 * eY - 498535 / 1000000 * eZ)"
    unfolding vR_def XYZ by (simp add: algebra_simps)
  have G: "vG = g + (- (219303 / 1000000000000) * r + 347388 / 1000000000000 * g - 47597 / 1000000000000 * b)
      + (- (969256 / 1000000) * eX + 1875991 / 1000000 * eY + 41556 / 1000000 * eZ)"
    unfolding vG_def XYZ by (simp add: algebra_simps)
  have B: "vB = b + (206565 / 1000000000000 * r - 710017 / 1000000000000 * g + 59434 / 1000000000000 * b)
      + (55648 / 1000000 * eX - 204043 / 1000000 * eY + 1057311 / 1000000 * eZ)"
    unfolding vB_def XYZ by (simp add: algebra_simps)
  have dR: "\<bar>vR - r\<bar> \<le> 3 / 1000000" using assms e unfolding R by linarith
  have dG: "\<bar>vG - g\<bar> \<le> 3 / 1000000" using assms e unfolding G by linarith
  have dB: "\<bar>vB - b\<bar> \<le> 3 / 1000000" using assms e unfolding B by linarith
  have v: "\<bar>vR\<bar> \<le> 11 / 10" "\<bar>vG\<bar> \<le> 11 / 10" "\<bar>vB\<bar> \<le> 11 / 10"
    using dR dG dB assms by linarith+
  from XyzToRgb_error [OF x v [unfolded vR_def vG_def vB_def], of p] obtain r' g' b' where
    t: "XyzToRgb (Float p) (Fin X, Fin Y, Fin Z) = Inr (Fin r', Fin g', Fin b')"
    and r': "\<bar>r' - vR\<bar> \<le> 7 / 100000000"
    and g': "\<bar>g' - vG\<bar> \<le> 7 / 100000000"
    and b': "\<bar>b' - vB\<bar> \<le> 7 / 100000000"
    unfolding vR_def vG_def vB_def by blast
  have "\<bar>r' - r\<bar> \<le> 1 / 100000" using r' dR by linarith
  moreover have "\<bar>g' - g\<bar> \<le> 1 / 100000" using g' dG by linarith
  moreover have "\<bar>b' - b\<bar> \<le> 1 / 100000" using b' dB by linarith
  ultimately show ?thesis using f t by blast
qed

theorem xyz_round_trip_witness:
  "RgbToXyz (Float Single) (Fin (1 / 2), Fin (1 / 4), Fin 1)
     = Inr (Fin (15973403 / 33554432), Fin (5994407 / 16777216), Fin (16604281 / 16777216))
   \<and> XyzToRgb (Float Single) (Fin (15973403 / 33554432), Fin (5994407 / 16777216), Fin (16604281 / 16777216))
     = Inr (Fin (8388621 / 16777216), Fin (16777211 / 67108864), Fin 1)
   \<and> \<bar>8388621 / 16777216 - 1 / 2 :: rat\<bar> \<le> 1 / 100000
   \<and> \<bar>16777211 / 67108864 - 1 / 4 :: rat\<bar> \<le> 1 / 100000
   \<and> \<bar>1 - 1 :: rat\<bar> \<le> 1 / 100000"
proof -
  have a: "RgbToXyz (Float Single) (Fin (1 / 2), Fin (1 / 4), Fin 1)
     = Inr (Fin (15973403 / 33554432), Fin (5994407 / 16777216), Fin (16604281 / 16777216))"
    by code_simp
  have b: "XyzToRgb (Float Single)
       (Fin (15973403 / 33554432), Fin (5994407 / 16777216), Fin (16604281 / 16777216))
     = Inr (Fin (8388621 / 16777216), Fin (16777211 / 67108864), Fin 1)"
    by code_simp
  have "(0::rat) \<le> 1 / 2" "(1 / 2 :: rat) \<le> 1" "(0::rat) \<le> 1 / 4" "(1 / 4 :: rat) \<le> 1"
    "(0::rat) \<le> 1" "(1::rat) \<le> 1"
    by simp_all
  from xyz_round_trip [OF this, of Single] obtain X Y Z r' g' b' where
    x: "RgbToXyz (Float Single) (Fin (1 / 2), Fin (1 / 4), Fin 1) = Inr (Fin X, Fin Y, Fin Z)"
    and r: "XyzToRgb (Float Single) (Fin X, Fin Y, Fin Z) = Inr (Fin r', Fin g', Fin b')"
    and t: "\<bar>r' - 1 / 2\<bar> \<le> 1 / 100000" "\<bar>g' - 1 / 4\<bar> \<le> 1 / 100000" "\<bar>b' - 1\<bar> \<le> 1 / 100000"
    by blast
  from x a have "X = 15973403 / 33554432" "Y = 5994407 / 16777216" "Z = 16604281 / 16777216"
    by simp_all
  with r b have "r' = 8388621 / 16777216" "g' = 16777211 / 67108864" "b' = 1"
    by simp_all
  with t a b show ?thesis by simp
qed

end
